theory Spec2Isabelle
  imports Complex_Main "HOL-Library.Word" "HOL-Library.Log_Nat"
begin

unbundle bit_operations_syntax

text \<open>
  A model of the Bluetooth blood pressure service (\<^verbatim>\<open>client/src/services/bluetoothBP.js\<close>)
  and of the hypertension classifier of the parser utilities. The functions carry the names
  of the source; the private methods lose their leading underscore.
\<close>

section \<open>JavaScript values\<close>

text \<open>
  The values that the decoder of \<^verbatim>\<open>bluetoothBP.js\<close> computes with are JavaScript
  numbers and \<^verbatim>\<open>null\<close>. A finite number is an IEEE 754 double, held as the rational it
  denotes; \<^verbatim>\<open>NaN\<close> and the two infinities are values of their own, as is \<^verbatim>\<open>null\<close>.
  The sign of zero is not modelled.
\<close>

datatype jsval = Null | NaN | PosInfinity | NegInfinity | Num rat

subsection \<open>Rounding to a double\<close>

text \<open>
  \<open>binade x\<close> is the exponent \<open>e\<close> with \<open>2^e \<le> |x| < 2^(e+1)\<close>, for \<open>x\<close> other than
  zero. A double has 53 significant bits, so that around \<open>x\<close> the doubles are the multiples
  of \<open>2^(e-52)\<close>; below \<open>2^(-1022)\<close> the spacing stays \<open>2^(-1074)\<close> (the subnormal
  numbers). \<open>binary64 x\<close> is the multiple nearest to \<open>x\<close>, the even one at a tie: the
  rounding of every arithmetic operation on doubles. A result of magnitude \<open>2^1024\<close> or more
  is an infinity.
\<close>

definition binade :: "rat \<Rightarrow> int" where
  "binade x =
     (if 1 \<le> \<bar>x\<bar> then bitlen \<lfloor>\<bar>x\<bar>\<rfloor> - 1 else - bitlen (\<lceil>1 / \<bar>x\<bar>\<rceil> - 1))"

definition round_half_even :: "rat \<Rightarrow> int" where
  "round_half_even q =
     (let f = \<lfloor>q\<rfloor>; r = q - of_int f
      in if r < 1 / 2 then f else if 1 / 2 < r then f + 1 else if even f then f else f + 1)"

definition binary64 :: "rat \<Rightarrow> rat" where
  "binary64 x =
     (if x = 0 then 0
      else (let e = max (binade x) (- 1022); u = 2 powi (e - 52)
            in sgn x * of_int (round_half_even (\<bar>x\<bar> / u)) * u))"

definition to_double :: "rat \<Rightarrow> jsval" where
  "to_double x =
     (let y = binary64 x
      in if 2 ^ 1024 \<le> \<bar>y\<bar> then (if 0 < y then PosInfinity else NegInfinity) else Num y)"

subsection \<open>Operations\<close>

text \<open>\<^verbatim>\<open>ToNumber\<close>: \<^verbatim>\<open>null\<close> becomes \<^verbatim>\<open>0\<close> in arithmetic and comparisons.\<close>

fun ToNumber :: "jsval \<Rightarrow> jsval" where
  "ToNumber Null = Num 0"
| "ToNumber v = v"

fun sign_of :: "jsval \<Rightarrow> rat" where
  "sign_of PosInfinity = 1"
| "sign_of NegInfinity = - 1"
| "sign_of (Num x) = sgn x"
| "sign_of _ = 0"

text \<open>The operator \<^verbatim>\<open>*\<close> on numbers: the exact product, rounded to a double.\<close>

fun times_number :: "jsval \<Rightarrow> jsval \<Rightarrow> jsval" where
  "times_number NaN _ = NaN"
| "times_number _ NaN = NaN"
| "times_number (Num a) (Num b) = to_double (a * b)"
| "times_number a b =
     (let s = sign_of a * sign_of b
      in if s = 0 then NaN else if 0 < s then PosInfinity else NegInfinity)"

definition js_times :: "jsval \<Rightarrow> jsval \<Rightarrow> jsval" where
  "js_times a b = times_number (ToNumber a) (ToNumber b)"

text \<open>
  \<^verbatim>\<open>Math.round\<close>: the nearest integer, a tie going up. The result is exact: an integer
  that close to a double is a double.
\<close>

fun round_number :: "jsval \<Rightarrow> jsval" where
  "round_number (Num x) = Num (of_int \<lfloor>x + 1 / 2\<rfloor>)"
| "round_number v = v"

definition Math_round :: "jsval \<Rightarrow> jsval" where
  "Math_round v = round_number (ToNumber v)"

text \<open>
  \<^verbatim>\<open>Math.pow(10, e)\<close> for an integer \<open>e\<close>: the double nearest to the power of ten.
\<close>

definition Math_pow10 :: "int \<Rightarrow> jsval" where
  "Math_pow10 e = to_double (10 powi e)"

text \<open>The comparisons \<^verbatim>\<open>>=\<close> and \<^verbatim>\<open><\<close>: false as soon as one side is \<^verbatim>\<open>NaN\<close>.\<close>

fun ge_number :: "jsval \<Rightarrow> jsval \<Rightarrow> bool" where
  "ge_number NaN _ = False"
| "ge_number _ NaN = False"
| "ge_number (Num a) (Num b) = (b \<le> a)"
| "ge_number PosInfinity _ = True"
| "ge_number _ NegInfinity = True"
| "ge_number _ _ = False"

fun lt_number :: "jsval \<Rightarrow> jsval \<Rightarrow> bool" where
  "lt_number NaN _ = False"
| "lt_number _ NaN = False"
| "lt_number (Num a) (Num b) = (a < b)"
| "lt_number PosInfinity _ = False"
| "lt_number _ NegInfinity = False"
| "lt_number _ _ = True"

definition js_ge :: "jsval \<Rightarrow> jsval \<Rightarrow> bool" where
  "js_ge a b = ge_number (ToNumber a) (ToNumber b)"

definition js_lt :: "jsval \<Rightarrow> jsval \<Rightarrow> bool" where
  "js_lt a b = lt_number (ToNumber a) (ToNumber b)"

datatype jserror = RangeError | Error string

section \<open>DataView\<close>

text \<open>
  A \<^verbatim>\<open>DataView\<close> is the list of its bytes. A read that does not fit inside the buffer
  throws \<^verbatim>\<open>RangeError\<close>. The 16-bit reads are the little-endian ones (the source always
  passes \<^verbatim>\<open>true\<close>).
\<close>

type_synonym dataview = "8 word list"

definition getUint8 :: "dataview \<Rightarrow> nat \<Rightarrow> jserror + int" where
  "getUint8 dataView i =
     (if i < length dataView then Inr (uint (dataView ! i)) else Inl RangeError)"

definition word16_at :: "dataview \<Rightarrow> nat \<Rightarrow> 16 word" where
  "word16_at dataView i = word_cat (dataView ! (i + 1)) (dataView ! i)"

definition getUint16 :: "dataview \<Rightarrow> nat \<Rightarrow> jserror + int" where
  "getUint16 dataView i =
     (if i + 2 \<le> length dataView then Inr (uint (word16_at dataView i)) else Inl RangeError)"

definition getInt16 :: "dataview \<Rightarrow> nat \<Rightarrow> jserror + int" where
  "getInt16 dataView i =
     (if i + 2 \<le> length dataView then Inr (sint (word16_at dataView i)) else Inl RangeError)"

section \<open>The SFLOAT decoder\<close>

text \<open>
  The body of \<^verbatim>\<open>_parseSFLOAT\<close> after the read: \<open>value\<close> is what
  \<^verbatim>\<open>getInt16\<close> returned, a signed number. \<^verbatim>\<open>&\<close> and \<^verbatim>\<open>>>\<close> are
  the bitwise operations on two's complement integers (\<^verbatim>\<open>>>\<close> keeps the sign).
\<close>

definition decodeSFLOAT :: "int \<Rightarrow> jsval" where
  "decodeSFLOAT value =
     (if value = 0x07FF then NaN
      else if value = 0x0800 then NaN
      else if value = 0x07FE then PosInfinity
      else if value = 0x0802 then NegInfinity
      else if value = 0x0801 then Null
      else
        (let mantissa = value AND 0x0FFF;
             exponent = drop_bit 12 value;
             exponent = (if exponent \<ge> 0x08 then - ((0x0F - exponent) + 1) else exponent);
             mantissaValue = (if mantissa \<ge> 0x0800 then - (0x1000 - mantissa) else mantissa)
         in js_times (Num (of_int mantissaValue)) (Math_pow10 exponent)))"

definition parseSFLOAT :: "dataview \<Rightarrow> nat \<Rightarrow> jserror + jsval" where
  "parseSFLOAT dataView offset =
     (case getInt16 dataView offset of
        Inl err \<Rightarrow> Inl err
      | Inr value \<Rightarrow> Inr (decodeSFLOAT value))"




section \<open>The measurement record parser\<close>

definition bind_result :: "jserror + 'a \<Rightarrow> ('a \<Rightarrow> jserror + 'b) \<Rightarrow> jserror + 'b" where
  "bind_result r f = (case r of Inl err \<Rightarrow> Inl err | Inr v \<Rightarrow> f v)"

text \<open>\<^verbatim>\<open>new Date(year, monthIndex, day, hours, minutes, seconds)\<close>, kept as its arguments.\<close>

datatype js_date = Date int int int int int int

record measurement_status =
  bodyMovementDetected :: bool
  cuffFitError :: bool
  irregularPulseDetected :: bool
  pulseRateOutOfRange :: bool
  measurementPositionImproper :: bool

definition parseMeasurementStatus :: "int \<Rightarrow> measurement_status" where
  "parseMeasurementStatus statusFlags =
     \<lparr> bodyMovementDetected = (statusFlags AND 0x01 = 0x01),
       cuffFitError = (statusFlags AND 0x02 = 0x02),
       irregularPulseDetected = (statusFlags AND 0x04 = 0x04),
       pulseRateOutOfRange = (statusFlags AND 0x08 = 0x08),
       measurementPositionImproper = (statusFlags AND 0x10 = 0x10) \<rparr>"

text \<open>
  The measurement object. A property that the parser may leave unset is an \<open>option\<close>;
  \<open>timestamp\<close> is the host clock at the time of parsing (\<^verbatim>\<open>new Date()\<close>).
\<close>

record measurement =
  systolic :: jsval
  diastolic :: jsval
  meanArterialPressure :: jsval
  originalUnit :: string
  timestamp :: nat
  deviceTimestamp :: "js_date option"
  heartRate :: "jsval option"
  userId :: "int option"
  status :: "measurement_status option"

text \<open>The literal \<^verbatim>\<open>7.50062\<close>: the double nearest to it.\<close>

definition kPa_factor :: jsval where
  "kPa_factor = to_double (750062 / 100000)"

text \<open>The four conditional blocks of \<^verbatim>\<open>_parseMeasurement\<close>, each on the object and the cursor.\<close>

definition read_deviceTimestamp :: "dataview \<Rightarrow> measurement \<times> nat \<Rightarrow> jserror + measurement \<times> nat" where
  "read_deviceTimestamp dataView st =
     (case st of (measurement, index) \<Rightarrow>
        bind_result (getUint16 dataView index) (\<lambda>year.
        bind_result (getUint8 dataView (index + 2)) (\<lambda>month.
        bind_result (getUint8 dataView (index + 3)) (\<lambda>day.
        bind_result (getUint8 dataView (index + 4)) (\<lambda>hours.
        bind_result (getUint8 dataView (index + 5)) (\<lambda>minutes.
        bind_result (getUint8 dataView (index + 6)) (\<lambda>seconds.
          Inr (measurement\<lparr>deviceTimestamp := Some (Date year (month - 1) day hours minutes seconds)\<rparr>,
               index + 7))))))))"

definition read_heartRate :: "dataview \<Rightarrow> measurement \<times> nat \<Rightarrow> jserror + measurement \<times> nat" where
  "read_heartRate dataView st =
     (case st of (measurement, index) \<Rightarrow>
        bind_result (parseSFLOAT dataView index) (\<lambda>pulseRate.
          Inr (measurement\<lparr>heartRate := Some (Math_round pulseRate)\<rparr>, index + 2)))"

definition read_userId :: "dataview \<Rightarrow> measurement \<times> nat \<Rightarrow> jserror + measurement \<times> nat" where
  "read_userId dataView st =
     (case st of (measurement, index) \<Rightarrow>
        bind_result (getUint8 dataView index) (\<lambda>uid.
          Inr (measurement\<lparr>userId := Some uid\<rparr>, index + 1)))"

definition read_status :: "dataview \<Rightarrow> measurement \<times> nat \<Rightarrow> jserror + measurement \<times> nat" where
  "read_status dataView st =
     (case st of (measurement, index) \<Rightarrow>
        bind_result (getUint16 dataView index) (\<lambda>statusFlags.
          Inr (measurement\<lparr>status := Some (parseMeasurementStatus statusFlags)\<rparr>, index + 2)))"

text \<open>
  \<^verbatim>\<open>_parseMeasurement\<close>, returning the final value of its local cursor \<open>index\<close> beside
  the measurement. \<open>now\<close> is the host clock.
\<close>

definition parseMeasurement_index :: "nat \<Rightarrow> dataview \<Rightarrow> jserror + measurement \<times> nat" where
  "parseMeasurement_index now dataView =
     (let index = 0 in
      bind_result (getUint8 dataView index) (\<lambda>flags.
      let index = index + 1;
          isKPa = (flags AND 0x01 = 0x01);
          unit = (if isKPa then ''kPa'' else ''mmHg'') in
      bind_result (parseSFLOAT dataView index) (\<lambda>systolic.
      let index = index + 2 in
      bind_result (parseSFLOAT dataView index) (\<lambda>diastolic.
      let index = index + 2 in
      bind_result (parseSFLOAT dataView index) (\<lambda>meanArterialPressure.
      let index = index + 2;
          convertedSystolic = (if isKPa then Math_round (js_times systolic kPa_factor) else systolic);
          convertedDiastolic = (if isKPa then Math_round (js_times diastolic kPa_factor) else diastolic);
          convertedMAP = (if isKPa then Math_round (js_times meanArterialPressure kPa_factor)
                          else meanArterialPressure);
          measurement = \<lparr> systolic = convertedSystolic,
                          diastolic = convertedDiastolic,
                          meanArterialPressure = convertedMAP,
                          originalUnit = unit,
                          timestamp = now,
                          deviceTimestamp = None,
                          heartRate = None,
                          userId = None,
                          status = None \<rparr> in
      bind_result (if flags AND 0x02 = 0x02 then read_deviceTimestamp dataView (measurement, index)
                   else Inr (measurement, index)) (\<lambda>st.
      bind_result (if flags AND 0x04 = 0x04 then read_heartRate dataView st else Inr st) (\<lambda>st.
      bind_result (if flags AND 0x08 = 0x08 then read_userId dataView st else Inr st) (\<lambda>st.
      bind_result (if flags AND 0x10 = 0x10 then read_status dataView st else Inr st) (\<lambda>st.
        Inr st)))))))))"

definition parseMeasurement :: "nat \<Rightarrow> dataview \<Rightarrow> jserror + measurement" where
  "parseMeasurement now dataView =
     bind_result (parseMeasurement_index now dataView) (\<lambda>st. Inr (fst st))"

text \<open>
  What the flags byte demands, in the words of the specification: seven bytes for the flags
  and the three pressures, then 7, 2, 1 and 2 bytes for the fields of bits 1, 2, 3 and 4.
\<close>

definition timestamp_offset :: "8 word \<Rightarrow> nat" where
  "timestamp_offset flags = 7"

definition pulse_offset :: "8 word \<Rightarrow> nat" where
  "pulse_offset flags = timestamp_offset flags + (if bit flags 1 then 7 else 0)"

definition userId_offset :: "8 word \<Rightarrow> nat" where
  "userId_offset flags = pulse_offset flags + (if bit flags 2 then 2 else 0)"

definition status_offset :: "8 word \<Rightarrow> nat" where
  "status_offset flags = userId_offset flags + (if bit flags 3 then 1 else 0)"

definition required_length :: "8 word \<Rightarrow> nat" where
  "required_length flags = status_offset flags + (if bit flags 4 then 2 else 0)"

text \<open>The SFLOAT at an offset that is known to lie inside the buffer.\<close>

definition sfloat_at :: "dataview \<Rightarrow> nat \<Rightarrow> jsval" where
  "sfloat_at dataView i = decodeSFLOAT (sint (word16_at dataView i))"

definition date_at :: "dataview \<Rightarrow> nat \<Rightarrow> js_date" where
  "date_at dataView i =
     Date (uint (word16_at dataView i)) (uint (dataView ! (i + 2)) - 1) (uint (dataView ! (i + 3)))
          (uint (dataView ! (i + 4))) (uint (dataView ! (i + 5))) (uint (dataView ! (i + 6)))"

section \<open>The clinical classifier\<close>

definition calculateHTNStatus :: "jsval \<Rightarrow> jsval \<Rightarrow> string" where
  "calculateHTNStatus systolic' diastolic' =
     (if js_ge systolic' (Num 180) \<or> js_ge diastolic' (Num 120) then ''Crisis''
      else if js_ge systolic' (Num 140) \<or> js_ge diastolic' (Num 90) then ''Stage 2''
      else if js_ge systolic' (Num 130) \<or> js_ge diastolic' (Num 80) then ''Stage 1''
      else if js_ge systolic' (Num 120) \<and> js_lt diastolic' (Num 80) then ''Elevated''
      else ''Normal'')"

section \<open>The connection manager and the event hub\<close>

text \<open>
  The service talks to the Web Bluetooth transport, which is outside the repository. The
  transport is a parameter of the model: a record that says, for each call the service
  makes, whether it resolves (and with which handle) or throws. Every call may throw. The
  same record holds the host clock.
\<close>

datatype uuid = UuidName string | UuidNumber nat

definition BP_SERVICE_UUID :: uuid where
  "BP_SERVICE_UUID = UuidName ''blood_pressure''"

definition BP_MEASUREMENT_UUID :: uuid where
  "BP_MEASUREMENT_UUID = UuidNumber 0x2A35"

definition BP_FEATURE_UUID :: uuid where
  "BP_FEATURE_UUID = UuidNumber 0x2A49"

definition OMRON_CUSTOM_SERVICE_UUID :: uuid where
  "OMRON_CUSTOM_SERVICE_UUID = UuidNumber 0xFE4A"

record bt_device =
  device_name :: "string option"
  device_id :: string

type_synonym gatt_server = nat

type_synonym gatt_service = nat

record gatt_characteristic =
  char_handle :: nat
  prop_indicate :: bool
  prop_notify :: bool
  prop_read :: bool

record device_info =
  info_name :: string
  info_id :: string
  info_connected :: bool

record bp_features =
  bodyMovementDetection :: bool
  cuffFitDetection :: bool
  irregularPulseDetection :: bool
  pulseRateRangeDetection :: bool
  measurementPositionDetection :: bool
  multipleUserSupport :: bool
  multipleStorageSupport :: bool

datatype payload = MeasurementData measurement | DisconnectedData (unexpected: bool)

text \<open>
  A callback is a function object. \<open>cb_id\<close> is its identity, which is what a \<^verbatim>\<open>Set\<close>
  compares. When it is called it may change the listeners of the service, with
  \<^verbatim>\<open>addEventListener\<close> and \<^verbatim>\<open>removeEventListener\<close> (\<open>cb_ops\<close>, in the order of the
  calls), and then it returns or throws (\<open>cb_throws\<close>, which may depend on the payload). It
  can add the callbacks that it holds and remove any callback, itself too, by identity. A
  callback holds finitely many callbacks and not itself, so that it cannot put itself back
  into the \<^verbatim>\<open>Set\<close> for ever: every emission ends. A callback does not call the other
  methods of the service.
\<close>

datatype callback =
  Callback (cb_id: nat) (cb_throws: "payload \<Rightarrow> jserror option") (cb_ops: "listener_op list")
and listener_op = AddListener string callback | RemoveListener string nat


text \<open>How much a callback can still add to an emission: itself and all that it holds.\<close>

fun weight :: "callback \<Rightarrow> nat" and weight_op :: "listener_op \<Rightarrow> nat" where
  "weight (Callback i th ops) = Suc (sum_list (map weight_op ops))"
| "weight_op (AddListener event callback) = Suc (weight callback)"
| "weight_op (RemoveListener event i) = 0"

text \<open>
  What the service does to the outside: its calls of the transport, its calls of
  \<^verbatim>\<open>_notifyListeners\<close> (\<open>Published\<close>), the callbacks it invokes, and what it writes with
  \<^verbatim>\<open>console.error\<close> and \<^verbatim>\<open>console.warn\<close>.
\<close>

datatype effect =
    RequestDevice
  | AddDisconnectListener
  | GattConnect
  | GetPrimaryService uuid
  | GetCharacteristic uuid
  | AddValueListener
  | StartNotifications
  | StopNotifications
  | ReadValue
  | GattDisconnect
  | Published string payload
  | Invoked callback payload
  | ConsoleError string jserror
  | ConsoleWarn string jserror

record transport =
  bluetooth_defined :: bool
  requestDevice :: "jserror + bt_device"
  gatt_connect :: "bt_device \<Rightarrow> jserror + gatt_server"
  getPrimaryService :: "gatt_server \<Rightarrow> uuid \<Rightarrow> jserror + gatt_service"
  getCharacteristic :: "gatt_service \<Rightarrow> uuid \<Rightarrow> jserror + gatt_characteristic"
  char_startNotifications :: "gatt_characteristic \<Rightarrow> jserror option"
  char_stopNotifications :: "gatt_characteristic \<Rightarrow> jserror option"
  readValue :: "gatt_characteristic \<Rightarrow> jserror + dataview"
  gatt_disconnect :: "bt_device \<Rightarrow> jserror + bool"
  clock :: nat

text \<open>
  The fields of the service object. \<open>listeners\<close> is the \<^verbatim>\<open>Map\<close> from event names to
  \<^verbatim>\<open>Set\<close>s of callbacks; a \<^verbatim>\<open>Set\<close> is the list of its members in insertion order.
  \<open>gatt_connected\<close> is \<^verbatim>\<open>device.gatt.connected\<close>, a property of the transport's
  object: true after \<^verbatim>\<open>gatt.connect()\<close> has resolved, false after a disconnection.
  \<open>device_listeners\<close> counts, for each device object, the \<^verbatim>\<open>gattserverdisconnected\<close>
  listeners that \<^verbatim>\<open>connectToDevice\<close> has added to it: one more at every call that gets
  this device, and none is ever removed. \<open>trace\<close> collects the effects.
  \<open>gatt_disconnect\<close> of the transport resolves with \<open>True\<close> when the disconnection
  dispatches \<^verbatim>\<open>gattserverdisconnected\<close> on the device, as a browser does.
\<close>

record bp_service =
  device :: "bt_device option"
  server :: "gatt_server option"
  service :: "gatt_service option"
  measurementCharacteristic :: "gatt_characteristic option"
  listeners :: "string \<rightharpoonup> callback list"
  gatt_connected :: bool
  device_listeners :: "bt_device \<Rightarrow> nat"
  trace :: "effect list"

definition emit :: "effect \<Rightarrow> bp_service \<Rightarrow> bp_service" where
  "emit e s = s\<lparr>trace := trace s @ [e]\<rparr>"

definition isSupported :: "transport \<Rightarrow> bool" where
  "isSupported t = bluetooth_defined t"

definition cleanup :: "bp_service \<Rightarrow> bp_service" where
  "cleanup s = s\<lparr>device := None, server := None, service := None,
                  measurementCharacteristic := None\<rparr>"

subsection \<open>The event hub\<close>

definition Set_add :: "callback \<Rightarrow> callback list \<Rightarrow> callback list" where
  "Set_add callback cbs = (if cb_id callback \<in> cb_id ` set cbs then cbs else cbs @ [callback])"

definition Set_delete :: "nat \<Rightarrow> callback list \<Rightarrow> callback list" where
  "Set_delete i cbs = filter (\<lambda>c. cb_id c \<noteq> i) cbs"

definition addEventListener :: "string \<Rightarrow> callback \<Rightarrow> bp_service \<Rightarrow> bp_service" where
  "addEventListener event callback s =
     (let ls = (if listeners s event = None then (listeners s)(event \<mapsto> []) else listeners s)
      in case ls event of
           None \<Rightarrow> s\<lparr>listeners := ls\<rparr>
         | Some cbs \<Rightarrow> s\<lparr>listeners := ls(event \<mapsto> Set_add callback cbs)\<rparr>)"

text \<open>\<^verbatim>\<open>removeEventListener\<close>, on the identity of the callback it is given.\<close>

definition remove_listener :: "string \<Rightarrow> nat \<Rightarrow> bp_service \<Rightarrow> bp_service" where
  "remove_listener event i s =
     (case listeners s event of
        None \<Rightarrow> s
      | Some cbs \<Rightarrow> s\<lparr>listeners := (listeners s)(event \<mapsto> Set_delete i cbs)\<rparr>)"

definition removeEventListener :: "string \<Rightarrow> callback \<Rightarrow> bp_service \<Rightarrow> bp_service" where
  "removeEventListener event callback s = remove_listener event (cb_id callback) s"

definition is_listener :: "string \<Rightarrow> callback \<Rightarrow> bp_service \<Rightarrow> bool" where
  "is_listener event callback s =
     (case listeners s event of
        None \<Rightarrow> False
      | Some cbs \<Rightarrow> cb_id callback \<in> cb_id ` set cbs)"

text \<open>
  \<^verbatim>\<open>Set.prototype.forEach\<close> walks the live \<^verbatim>\<open>Set\<close>: a member deleted before its turn is
  not visited, and a member added during the walk is visited after those before it. The
  walk of the listeners of \<open>event\<close> is the list \<open>pending\<close> of the members still to visit;
  a change that a callback makes goes to the \<^verbatim>\<open>Set\<close> in \<open>listeners\<close> and, for this event,
  to \<open>pending\<close> as well.
\<close>

fun apply_op :: "string \<Rightarrow> listener_op \<Rightarrow> callback list \<times> bp_service \<Rightarrow> callback list \<times> bp_service" where
  "apply_op event (AddListener ev callback) (pending, s) =
     ((if ev = event \<and> \<not> is_listener ev callback s then pending @ [callback] else pending),
      addEventListener ev callback s)"
| "apply_op event (RemoveListener ev i) (pending, s) =
     ((if ev = event then Set_delete i pending else pending), remove_listener ev i s)"

text \<open>The body of the \<^verbatim>\<open>forEach\<close>: one callback, inside its \<^verbatim>\<open>try\<close>.\<close>

definition call_listener ::
    "string \<Rightarrow> payload \<Rightarrow> callback \<Rightarrow> callback list \<times> bp_service \<Rightarrow> callback list \<times> bp_service" where
  "call_listener event data callback st =
     (let st1 = (fst st, emit (Invoked callback data) (snd st));
          st2 = fold (apply_op event) (cb_ops callback) st1
      in case cb_throws callback data of
           None \<Rightarrow> st2
         | Some err \<Rightarrow>
             (fst st2, emit (ConsoleError (''Error in '' @ event @ '' listener:'') err) (snd st2)))"

definition pending_weight :: "callback list \<Rightarrow> nat" where
  "pending_weight cbs = sum_list (map (\<lambda>c. Suc (weight c)) cbs)"

function forEach :: "string \<Rightarrow> payload \<Rightarrow> callback list \<Rightarrow> bp_service \<Rightarrow> bp_service" where
  "forEach event data [] s = s"
| "forEach event data (callback # rest) s =
     forEach event data (fst (call_listener event data callback (rest, s)))
                        (snd (call_listener event data callback (rest, s)))"
  by pat_completeness auto
termination
proof (relation "measure (\<lambda>(event, data, pending, s). pending_weight pending)")
  show "wf (measure (\<lambda>(event, data, pending, s). pending_weight pending))"
    by simp
next
  fix event :: string and data :: payload and callback :: callback
    and rest :: "callback list" and s :: bp_service
  have filtered: "pending_weight (filter P cbs) \<le> pending_weight cbs" for P cbs
    by (induction cbs) (simp_all add: pending_weight_def)
  have one: "pending_weight (fst (apply_op event op st)) \<le> pending_weight (fst st) + weight_op op"
    for op st
  proof (cases op)
    case (AddListener ev c)
    then show ?thesis by (cases st) (simp add: pending_weight_def)
  next
    case (RemoveListener ev i)
    then show ?thesis
      using filtered[of "\<lambda>c. cb_id c \<noteq> i" "fst st"] by (cases st) (simp add: Set_delete_def)
  qed
  have many: "pending_weight (fst (fold (apply_op event) ops st))
                \<le> pending_weight (fst st) + sum_list (map weight_op ops)" for ops st
  proof (induction ops arbitrary: st)
    case Nil
    then show ?case by simp
  next
    case (Cons op ops)
    have "pending_weight (fst (fold (apply_op event) (op # ops) st))
          \<le> pending_weight (fst (apply_op event op st)) + sum_list (map weight_op ops)"
      using Cons.IH[of "apply_op event op st"] by simp
    also have "\<dots> \<le> pending_weight (fst st) + weight_op op + sum_list (map weight_op ops)"
      using one[of op st] by simp
    finally show ?case by simp
  qed
  have "fst (call_listener event data callback (rest, s)) =
        fst (fold (apply_op event) (cb_ops callback) (rest, emit (Invoked callback data) s))"
    by (simp add: call_listener_def Let_def split: option.splits)
  moreover have "pending_weight (fst (fold (apply_op event) (cb_ops callback)
                    (rest, emit (Invoked callback data) s)))
                 \<le> pending_weight rest + sum_list (map weight_op (cb_ops callback))"
    using many[of "cb_ops callback" "(rest, emit (Invoked callback data) s)"] by simp
  moreover have "weight callback = Suc (sum_list (map weight_op (cb_ops callback)))"
    by (cases callback) simp
  ultimately have "pending_weight (fst (call_listener event data callback (rest, s)))
                   < pending_weight (callback # rest)"
    by (simp add: pending_weight_def)
  then show "((event, data, fst (call_listener event data callback (rest, s)),
               snd (call_listener event data callback (rest, s))),
              (event, data, callback # rest, s))
             \<in> measure (\<lambda>(event, data, pending, s). pending_weight pending)"
    by (simp add: case_prod_beta)
qed

definition notifyListeners :: "string \<Rightarrow> payload \<Rightarrow> bp_service \<Rightarrow> bp_service" where
  "notifyListeners event data s =
     (let s1 = emit (Published event data) s
      in case listeners s1 event of
           None \<Rightarrow> s1
         | Some cbs \<Rightarrow> forEach event data cbs s1)"

subsection \<open>Measurements and disconnections\<close>

definition handleMeasurement :: "transport \<Rightarrow> dataview \<Rightarrow> bp_service \<Rightarrow> (jserror + unit) \<times> bp_service" where
  "handleMeasurement t value s =
     (case parseMeasurement (clock t) value of
        Inl err \<Rightarrow> (Inl err, s)
      | Inr measurement \<Rightarrow> (Inr (), notifyListeners ''measurement'' (MeasurementData measurement) s))"

definition handleDisconnection :: "bp_service \<Rightarrow> bp_service" where
  "handleDisconnection s =
     notifyListeners ''disconnected'' (DisconnectedData True) (cleanup s)"

text \<open>
  The dispatch of \<^verbatim>\<open>gattserverdisconnected\<close> on a device: every listener that
  \<^verbatim>\<open>connectToDevice\<close> has added to this device runs \<^verbatim>\<open>_handleDisconnection\<close>.
\<close>

definition dispatch_disconnected :: "bt_device \<Rightarrow> bp_service \<Rightarrow> bp_service" where
  "dispatch_disconnected d s = (handleDisconnection ^^ device_listeners s d) s"

text \<open>
  An unsolicited disconnection of a device: the transport drops the link, which is the link
  of \<open>gatt_connected\<close> when the device is the one that the service holds, and dispatches the
  event.
\<close>

definition gattserverdisconnected :: "bt_device \<Rightarrow> bp_service \<Rightarrow> bp_service" where
  "gattserverdisconnected d s =
     dispatch_disconnected d (if device s = Some d then s\<lparr>gatt_connected := False\<rparr> else s)"

definition isConnected :: "bp_service \<Rightarrow> bool" where
  "isConnected s = (device s \<noteq> None \<and> gatt_connected s)"

definition disconnect :: "transport \<Rightarrow> bp_service \<Rightarrow> (jserror + unit) \<times> bp_service" where
  "disconnect t s =
     (let s1 = (case measurementCharacteristic s of
                  None \<Rightarrow> s
                | Some c \<Rightarrow>
                    if gatt_connected s then
                      (let s' = emit StopNotifications s
                       in case char_stopNotifications t c of
                            None \<Rightarrow> s'
                          | Some err \<Rightarrow> emit (ConsoleWarn ''Error stopping notifications:'' err) s')
                    else s)
      in case device s1 of
           None \<Rightarrow> (Inr (), cleanup s1)
         | Some d \<Rightarrow>
             if gatt_connected s1 then
               (let s2 = emit GattDisconnect s1
                in case gatt_disconnect t d of
                     Inl err \<Rightarrow> (Inl err, s2)
                   | Inr fires \<Rightarrow>
                       (let s3 = s2\<lparr>gatt_connected := False\<rparr>;
                            s4 = (if fires then dispatch_disconnected d s3 else s3)
                        in (Inr (), cleanup s4)))
             else (Inr (), cleanup s1))"

subsection \<open>Connecting\<close>

definition parseFeatures :: "dataview \<Rightarrow> jserror + bp_features" where
  "parseFeatures dataView =
     bind_result (getUint16 dataView 0) (\<lambda>flags.
       Inr \<lparr> bodyMovementDetection = (flags AND 0x01 = 0x01),
             cuffFitDetection = (flags AND 0x02 = 0x02),
             irregularPulseDetection = (flags AND 0x04 = 0x04),
             pulseRateRangeDetection = (flags AND 0x08 = 0x08),
             measurementPositionDetection = (flags AND 0x10 = 0x10),
             multipleUserSupport = (flags AND 0x20 = 0x20),
             multipleStorageSupport = (flags AND 0x40 = 0x40) \<rparr>)"

definition startNotifications :: "transport \<Rightarrow> bp_service \<Rightarrow> (jserror + unit) \<times> bp_service" where
  "startNotifications t s =
     (case measurementCharacteristic s of
        None \<Rightarrow> (Inl (Error ''Measurement characteristic not available''), s)
      | Some c \<Rightarrow>
          if prop_indicate c \<or> prop_notify c then
            (let s1 = emit AddValueListener s;
                 s2 = emit StartNotifications s1
             in case char_startNotifications t c of
                  Some err \<Rightarrow> (Inl err, s2)
                | None \<Rightarrow> (Inr (), s2))
          else (Inl (Error ''Device does not support notifications/indications''), s))"

text \<open>
  \<^verbatim>\<open>_readFeatures\<close> catches whatever its body throws and then returns \<^verbatim>\<open>null\<close>; it
  returns nothing when the characteristic cannot be read. Both are \<open>None\<close> here.
\<close>

definition readFeatures :: "transport \<Rightarrow> bp_service \<Rightarrow> bp_features option \<times> bp_service" where
  "readFeatures t s =
     (case service s of
        None \<Rightarrow> (None, s)
      | Some svc \<Rightarrow>
          (let s1 = emit (GetCharacteristic BP_FEATURE_UUID) s
           in case getCharacteristic t svc BP_FEATURE_UUID of
                Inl err \<Rightarrow> (None, s1)
              | Inr featureChar \<Rightarrow>
                  if prop_read featureChar then
                    (let s2 = emit ReadValue s1
                     in case readValue t featureChar of
                          Inl err \<Rightarrow> (None, s2)
                        | Inr value \<Rightarrow>
                            (case parseFeatures value of
                               Inl err \<Rightarrow> (None, s2)
                             | Inr features \<Rightarrow> (Some features, s2)))
                  else (None, s1)))"

text \<open>The \<^verbatim>\<open>try\<close> block of \<^verbatim>\<open>connectToDevice\<close>.\<close>

definition connect_try :: "transport \<Rightarrow> bp_service \<Rightarrow> (jserror + device_info) \<times> bp_service" where
  "connect_try t s =
     (let s = emit RequestDevice s
      in case requestDevice t of
           Inl err \<Rightarrow> (Inl err, s)
         | Inr d \<Rightarrow>
             (let s = s\<lparr>device := Some d\<rparr>;
                  s = (emit AddDisconnectListener s)
                        \<lparr>device_listeners := (device_listeners s)(d := Suc (device_listeners s d))\<rparr>;
                  s = emit GattConnect s
              in case gatt_connect t d of
                   Inl err \<Rightarrow> (Inl err, s)
                 | Inr srv \<Rightarrow>
                     (let s = s\<lparr>server := Some srv, gatt_connected := True\<rparr>;
                          s = emit (GetPrimaryService BP_SERVICE_UUID) s;
                          found = (case getPrimaryService t srv BP_SERVICE_UUID of
                                     Inr svc \<Rightarrow> (Inr svc, s)
                                   | Inl error \<Rightarrow>
                                       (let s = emit (GetPrimaryService OMRON_CUSTOM_SERVICE_UUID) s
                                        in (getPrimaryService t srv OMRON_CUSTOM_SERVICE_UUID, s)))
                      in case found of
                           (Inl err, s) \<Rightarrow> (Inl err, s)
                         | (Inr svc, s) \<Rightarrow>
                             (let s = s\<lparr>service := Some svc\<rparr>;
                                  s = emit (GetCharacteristic BP_MEASUREMENT_UUID) s
                              in case getCharacteristic t svc BP_MEASUREMENT_UUID of
                                   Inl err \<Rightarrow> (Inl err, s)
                                 | Inr c \<Rightarrow>
                                     (let s = s\<lparr>measurementCharacteristic := Some c\<rparr>
                                      in case startNotifications t s of
                                           (Inl err, s) \<Rightarrow> (Inl err, s)
                                         | (Inr u, s) \<Rightarrow>
                                             (let s = snd (readFeatures t s)
                                              in (Inr \<lparr> info_name =
                                                          (case device_name d of
                                                             None \<Rightarrow> ''Unknown Device''
                                                           | Some n \<Rightarrow> if n = [] then ''Unknown Device'' else n),
                                                        info_id = device_id d,
                                                        info_connected = True \<rparr>, s)))))))"

definition connectToDevice :: "transport \<Rightarrow> bp_service \<Rightarrow> (jserror + device_info) \<times> bp_service" where
  "connectToDevice t s =
     (if \<not> isSupported t then (Inl (Error ''Web Bluetooth is not supported in this browser''), s)
      else case connect_try t s of
             (Inr info, s') \<Rightarrow> (Inr info, s')
           | (Inl error, s') \<Rightarrow>
               (Inl error, cleanup (emit (ConsoleError ''Connection failed:'' error) s')))"

text \<open>The calls of \<^verbatim>\<open>getPrimaryService\<close> among effects, by their UUID.\<close>

fun service_lookups :: "effect list \<Rightarrow> uuid list" where
  "service_lookups [] = []"
| "service_lookups (GetPrimaryService u # es) = u # service_lookups es"
| "service_lookups (e # es) = service_lookups es"

fun invocations :: "effect list \<Rightarrow> (callback \<times> payload) list" where
  "invocations [] = []"
| "invocations (Invoked c d # es) = (c, d) # invocations es"
| "invocations (e # es) = invocations es"

fun publications :: "effect list \<Rightarrow> (string \<times> payload) list" where
  "publications [] = []"
| "publications (Published ev d # es) = (ev, d) # publications es"
| "publications (e # es) = publications es"

fun logged_errors :: "effect list \<Rightarrow> jserror list" where
  "logged_errors [] = []"
| "logged_errors (ConsoleError m err # es) = err # logged_errors es"
| "logged_errors (e # es) = logged_errors es"

text \<open>
  The effects of one callback in an emission: its invocation and, when it throws, the line
  that the \<^verbatim>\<open>catch\<close> of \<^verbatim>\<open>_notifyListeners\<close> writes.
\<close>

definition callback_effects :: "string \<Rightarrow> payload \<Rightarrow> callback \<Rightarrow> effect list" where
  "callback_effects event data callback =
     Invoked callback data #
       (case cb_throws callback data of
          None \<Rightarrow> []
        | Some err \<Rightarrow> [ConsoleError (''Error in '' @ event @ '' listener:'') err])"

text \<open>Two states of the service object with the same connection: all but listeners and trace.\<close>

definition same_connection :: "bp_service \<Rightarrow> bp_service \<Rightarrow> bool" where
  "same_connection s' s =
     (device s' = device s \<and> server s' = server s \<and> service s' = service s \<and>
      measurementCharacteristic s' = measurementCharacteristic s \<and>
      gatt_connected s' = gatt_connected s \<and> device_listeners s' = device_listeners s)"

section \<open>Sample inputs\<close>


text \<open>A notification in kPa with a pulse: 16.0, 10.7 and 12.4 kPa, pulse 70.\<close>

definition kPa_buffer :: dataview where
  "kPa_buffer = [0x05, 0xA0, 0xF0, 0x6B, 0xF0, 0x7C, 0xF0, 0x46, 0x00]"

text \<open>The service object as the constructor leaves it.\<close>

definition constructor :: bp_service where
  "constructor =
     \<lparr> device = None, server = None, service = None, measurementCharacteristic = None,
       listeners = Map.empty, gatt_connected = False, device_listeners = (\<lambda>d. 0),
       trace = [] \<rparr>"

text \<open>
  A transport whose device has only the vendor service: the standard lookup throws. Stopping
  the notifications throws as well.
\<close>

definition sample_device :: bt_device where
  "sample_device = \<lparr> device_name = Some ''Test BP Monitor'', device_id = ''test-device-id'' \<rparr>"

definition sample_characteristic :: gatt_characteristic where
  "sample_characteristic =
     \<lparr> char_handle = 3, prop_indicate = True, prop_notify = True, prop_read = False \<rparr>"

definition sample_transport :: transport where
  "sample_transport =
     \<lparr> bluetooth_defined = True,
       requestDevice = Inr sample_device,
       gatt_connect = (\<lambda>d. Inr 1),
       getPrimaryService =
         (\<lambda>srv u. if u = BP_SERVICE_UUID then Inl (Error ''Service not found'') else Inr 2),
       getCharacteristic =
         (\<lambda>svc u. if u = BP_MEASUREMENT_UUID then Inr sample_characteristic
                  else Inl (Error ''Characteristic not found'')),
       char_startNotifications = (\<lambda>c. None),
       char_stopNotifications = (\<lambda>c. Some (Error ''Failed to stop'')),
       readValue = (\<lambda>c. Inl (Error ''Not readable'')),
       gatt_disconnect = (\<lambda>d. Inr False),
       clock = 0 \<rparr>"

text \<open>The service object after \<^verbatim>\<open>connectToDevice\<close> has resolved on that transport.\<close>

definition connected_service :: bp_service where
  "connected_service =
     \<lparr> device = Some sample_device, server = Some 1, service = Some 2,
       measurementCharacteristic = Some sample_characteristic,
       listeners = Map.empty, gatt_connected = True,
       device_listeners = (\<lambda>d. 0)(sample_device := 1),
       trace = [RequestDevice, AddDisconnectListener, GattConnect,
                GetPrimaryService BP_SERVICE_UUID, GetPrimaryService OMRON_CUSTOM_SERVICE_UUID,
                GetCharacteristic BP_MEASUREMENT_UUID, AddValueListener, StartNotifications,
                GetCharacteristic BP_FEATURE_UUID] \<rparr>"

text \<open>Variants of that transport: one call throws, or the disconnection is dispatched.\<close>

definition fail_requestDevice :: transport where
  "fail_requestDevice = sample_transport\<lparr>requestDevice := Inl (Error ''User cancelled'')\<rparr>"

definition fail_gatt_connect :: transport where
  "fail_gatt_connect = sample_transport\<lparr>gatt_connect := (\<lambda>d. Inl (Error ''GATT error''))\<rparr>"

definition fail_getPrimaryService :: transport where
  "fail_getPrimaryService =
     sample_transport\<lparr>getPrimaryService := (\<lambda>srv u. Inl (Error ''Service not found''))\<rparr>"

definition fail_getCharacteristic :: transport where
  "fail_getCharacteristic =
     sample_transport\<lparr>getCharacteristic := (\<lambda>svc u. Inl (Error ''Characteristic not found''))\<rparr>"

definition fail_startNotifications :: transport where
  "fail_startNotifications =
     sample_transport\<lparr>char_startNotifications := (\<lambda>c. Some (Error ''Not permitted''))\<rparr>"

definition fail_gatt_disconnect :: transport where
  "fail_gatt_disconnect =
     sample_transport\<lparr>gatt_disconnect := (\<lambda>d. Inl (Error ''Disconnect failed''))\<rparr>"

definition dispatching_transport :: transport where
  "dispatching_transport = sample_transport\<lparr>gatt_disconnect := (\<lambda>d. Inr True)\<rparr>"







section \<open>Facts about the SFLOAT decoder\<close>














section \<open>Facts about rounding to a double\<close>

lemma two_powi_pos: "0 < (2::rat) powi e"
  by simp

lemma two_powi_nat: "0 \<le> e \<Longrightarrow> (2::rat) powi e = 2 ^ nat e"
  by (simp add: power_int_def)

lemma two_powi_neg: "0 \<le> k \<Longrightarrow> (2::rat) powi (- k) = 1 / 2 ^ nat k"
  by (simp add: power_int_minus two_powi_nat inverse_eq_divide)

lemma two_powi_Suc: "(2::rat) powi (e + 1) = 2 * 2 powi e"
  by (simp add: power_int_add)

lemma binade_bounds:
  assumes "x \<noteq> 0"
  shows "2 powi (binade x) \<le> \<bar>x\<bar> \<and> \<bar>x\<bar> < 2 powi (binade x + 1)"
proof (cases "1 \<le> \<bar>x\<bar>")
  case True
  define n where "n = \<lfloor>\<bar>x\<bar>\<rfloor>"
  have n1: "1 \<le> n" using True by (simp add: n_def le_floor_iff)
  then have bl: "2 ^ nat (bitlen n - 1) \<le> n" "n < 2 ^ nat (bitlen n)"
    using bitlen_bounds[of n] by simp_all
  have bl1: "1 \<le> bitlen n"
  proof (rule ccontr)
    assume "\<not> 1 \<le> bitlen n"
    then have "bitlen n = 0" using bitlen_nonneg[of n] by simp
    then show False using bl(2) n1 by simp
  qed
  have e: "binade x = bitlen n - 1" using True by (simp add: binade_def n_def)
  have lo: "(2::rat) powi (bitlen n - 1) \<le> \<bar>x\<bar>"
  proof -
    have "(2::rat) powi (bitlen n - 1) = of_int (2 ^ nat (bitlen n - 1))"
      using bl1 by (simp add: two_powi_nat)
    also have "\<dots> \<le> of_int n" using bl(1) by (simp only: of_int_le_iff)
    also have "\<dots> \<le> \<bar>x\<bar>" by (simp add: n_def)
    finally show ?thesis .
  qed
  have hi: "\<bar>x\<bar> < (2::rat) powi (bitlen n - 1 + 1)"
  proof -
    have "\<bar>x\<bar> < of_int (n + 1)" unfolding n_def by simp linarith
    also have "n + 1 \<le> 2 ^ nat (bitlen n)" using bl(2) by simp
    then have "(of_int (n + 1) :: rat) \<le> of_int (2 ^ nat (bitlen n))" by (simp only: of_int_le_iff)
    also have "(of_int (2 ^ nat (bitlen n)) :: rat) = 2 powi (bitlen n - 1 + 1)"
      using bl1 by (simp add: two_powi_nat)
    finally show ?thesis .
  qed
  show ?thesis using lo hi by (simp add: e)
next
  case False
  define y where "y = 1 / \<bar>x\<bar>"
  define c where "c = \<lceil>y\<rceil>"
  define k where "k = bitlen (c - 1)"
  have xpos: "0 < \<bar>x\<bar>" using assms by simp
  have y1: "1 < y" using False xpos by (simp add: y_def)
  have c2: "2 \<le> c" using y1 unfolding c_def by linarith
  then have bl: "2 ^ nat (k - 1) \<le> c - 1" "c - 1 < 2 ^ nat k"
    using bitlen_bounds[of "c - 1"] by (simp_all add: k_def)
  have k1: "1 \<le> k"
  proof (rule ccontr)
    assume "\<not> 1 \<le> k"
    then have "k = 0" using bitlen_nonneg[of "c - 1"] by (simp add: k_def)
    then show False using bl(2) c2 by simp
  qed
  have e: "binade x = - k" using False by (simp add: binade_def k_def c_def y_def)
  have ypos: "0 < y" using y1 by simp
  have xy: "\<bar>x\<bar> = 1 / y" using xpos by (simp add: y_def)
  have yle: "y \<le> 2 ^ nat k"
  proof -
    have "y \<le> of_int c" by (simp add: c_def)
    also have "c \<le> 2 ^ nat k" using bl(2) by simp
    then have "(of_int c :: rat) \<le> of_int (2 ^ nat k)" by (simp only: of_int_le_iff)
    finally show ?thesis by simp
  qed
  have ygt: "2 ^ nat (k - 1) < y"
  proof -
    have "(of_int (2 ^ nat (k - 1)) :: rat) \<le> of_int (c - 1)" using bl(1) by (simp only: of_int_le_iff)
    also have "(of_int (c - 1) :: rat) < y" unfolding c_def by linarith
    finally show ?thesis by simp
  qed
  have lo: "(2::rat) powi (- k) \<le> \<bar>x\<bar>"
  proof -
    have "(2::rat) powi (- k) = 1 / 2 ^ nat k" using k1 by (simp add: two_powi_neg)
    also have "\<dots> \<le> 1 / y" using yle ypos by (simp add: frac_le)
    finally show ?thesis by (simp add: xy)
  qed
  have hi: "\<bar>x\<bar> < (2::rat) powi (- k + 1)"
  proof -
    have lt: "1 / y < 1 / 2 ^ nat (k - 1)" using ygt by (simp add: frac_less2)
    have p: "(2::rat) powi (- (k - 1)) = 1 / 2 ^ nat (k - 1)"
      by (rule two_powi_neg) (use k1 in simp)
    have eq: "- k + 1 = - (k - 1)" by simp
    show ?thesis unfolding eq p xy by (rule lt)
  qed
  show ?thesis using lo hi by (simp add: e)
qed

lemma round_half_even_error: "\<bar>of_int (round_half_even q) - q\<bar> \<le> 1 / 2"
proof -
  have "of_int \<lfloor>q\<rfloor> \<le> q" "q < of_int \<lfloor>q\<rfloor> + 1" by linarith+
  then show ?thesis
    by (auto simp add: round_half_even_def Let_def abs_le_iff)
qed

lemma round_half_even_of_int: "round_half_even (of_int k) = k"
  by (simp add: round_half_even_def)

lemma round_half_even_nonneg: "0 \<le> q \<Longrightarrow> 0 \<le> round_half_even q"
  by (auto simp add: round_half_even_def Let_def)


lemma two_powi_less_iff: "((2::rat) powi a < 2 powi b) = (a < b)"
proof
  assume l: "(2::rat) powi a < 2 powi b"
  show "a < b"
  proof (rule ccontr)
    assume "\<not> a < b"
    then have "(2::rat) powi b \<le> 2 powi a" by (intro power_int_increasing) simp_all
    with l show False by simp
  qed
next
  assume "a < b"
  then show "(2::rat) powi a < 2 powi b" by (intro power_int_strict_increasing) simp_all
qed

lemma binade_unique:
  assumes "x \<noteq> 0" and "2 powi e \<le> \<bar>x\<bar>" and "\<bar>x\<bar> < 2 powi (e + 1)"
  shows "binade x = e"
proof -
  have b: "2 powi (binade x) \<le> \<bar>x\<bar>" "\<bar>x\<bar> < 2 powi (binade x + 1)"
    using binade_bounds[OF assms(1)] by simp_all
  have "(2::rat) powi e < 2 powi (binade x + 1)" using assms(2) b(2) by simp
  then have 1: "e < binade x + 1" by (simp add: two_powi_less_iff)
  have "(2::rat) powi (binade x) < 2 powi (e + 1)" using assms(3) b(1) by simp
  then have 2: "binade x < e + 1" by (simp add: two_powi_less_iff)
  from 1 2 show ?thesis by simp
qed

lemma binary64_in_binade:
  assumes "2 powi e \<le> \<bar>x\<bar>" and "\<bar>x\<bar> < 2 powi (e + 1)" and "- 1022 \<le> e"
  shows "binary64 x = sgn x * of_int (round_half_even (\<bar>x\<bar> / 2 powi (e - 52))) * 2 powi (e - 52)"
proof -
  have nz: "x \<noteq> 0"
  proof
    assume "x = 0"
    with assms(1) have "(2::rat) powi e \<le> 0" by simp
    moreover have "0 < (2::rat) powi e" by (rule two_powi_pos)
    ultimately show False by linarith
  qed
  have "binade x = e" using nz assms(1,2) by (rule binade_unique)
  then show ?thesis using nz assms(3) by (simp add: binary64_def Let_def max_def)
qed

lemma floor_rat_numeral: "\<lfloor>numeral a / numeral b :: rat\<rfloor> = numeral a div numeral b"
  using floor_divide_of_int_eq[of "numeral a" "numeral b", where ?'a = rat] by simp

lemmas round_eval = round_half_even_def Let_def floor_rat_numeral power_int_minus

lemma binary64_error:
  "\<bar>binary64 x - x\<bar> \<le> 2 powi (max (binade x) (- 1022) - 53)"
proof (cases "x = 0")
  case True
  then show ?thesis by (simp add: binary64_def)
next
  case False
  define u :: rat where "u = 2 powi (max (binade x) (- 1022) - 52)"
  define n where "n = round_half_even (\<bar>x\<bar> / u)"
  have upos: "0 < u" by (simp add: u_def)
  have b: "binary64 x = sgn x * of_int n * u"
    using False by (simp add: binary64_def Let_def u_def n_def)
  have "\<bar>of_int n - \<bar>x\<bar> / u\<bar> \<le> 1 / 2" unfolding n_def by (rule round_half_even_error)
  then have "\<bar>of_int n - \<bar>x\<bar> / u\<bar> * u \<le> 1 / 2 * u"
    using upos by (simp add: mult_right_mono)
  moreover have "\<bar>of_int n - \<bar>x\<bar> / u\<bar> * u = \<bar>of_int n * u - \<bar>x\<bar>\<bar>"
  proof -
    have "\<bar>of_int n - \<bar>x\<bar> / u\<bar> * u = \<bar>(of_int n - \<bar>x\<bar> / u) * u\<bar>"
      using upos by (simp add: abs_mult)
    also have "(of_int n - \<bar>x\<bar> / u) * u = of_int n * u - \<bar>x\<bar>"
      using upos by (simp add: left_diff_distrib)
    finally show ?thesis .
  qed
  ultimately have e1: "\<bar>of_int n * u - \<bar>x\<bar>\<bar> \<le> u / 2" by simp
  have "binary64 x - x = sgn x * (of_int n * u - \<bar>x\<bar>)"
    by (simp add: b right_diff_distrib mult.assoc mult_sgn_abs)
  then have "\<bar>binary64 x - x\<bar> = \<bar>of_int n * u - \<bar>x\<bar>\<bar>"
    using False by (simp add: abs_mult abs_sgn_eq)
  then have "\<bar>binary64 x - x\<bar> \<le> u / 2" using e1 by simp
  moreover have "u / 2 = 2 powi (max (binade x) (- 1022) - 53)"
  proof -
    have "max (binade x) (- 1022) - 52 = (max (binade x) (- 1022) - 53) + 1" by simp
    then have "u = 2 * 2 powi (max (binade x) (- 1022) - 53)"
      unfolding u_def by (simp only: two_powi_Suc)
    then show ?thesis by simp
  qed
  ultimately show ?thesis by simp
qed

lemma binary64_abs_le: "\<bar>binary64 x\<bar> \<le> 2 * \<bar>x\<bar> + 1"
proof (cases "x = 0")
  case True
  then show ?thesis by (simp add: binary64_def)
next
  case False
  have err: "\<bar>binary64 x\<bar> \<le> \<bar>x\<bar> + 2 powi (max (binade x) (- 1022) - 53)"
    using binary64_error[of x] by linarith
  have "(2::rat) powi (max (binade x) (- 1022) - 53) \<le> \<bar>x\<bar> + 1"
  proof (cases "- 1022 \<le> binade x")
    case True
    then have "(2::rat) powi (max (binade x) (- 1022) - 53) = 2 powi (binade x - 53)"
      by (simp add: max_def)
    also have "\<dots> \<le> 2 powi (binade x)" by (rule power_int_increasing) simp_all
    also have "\<dots> \<le> \<bar>x\<bar>" using binade_bounds[OF False] by simp
    finally show ?thesis by simp
  next
    case False
    then have "(2::rat) powi (max (binade x) (- 1022) - 53) = 2 powi (- 1075)"
      by (simp add: max_def)
    also have "\<dots> \<le> 2 powi 0" by (rule power_int_increasing) simp_all
    finally show ?thesis by simp
  qed
  with err show ?thesis by linarith
qed

lemma to_double_Num:
  assumes "\<bar>x\<bar> \<le> 2 ^ 1000"
  shows "to_double x = Num (binary64 x)"
proof -
  have "\<bar>binary64 x\<bar> \<le> 2 * \<bar>x\<bar> + 1" by (rule binary64_abs_le)
  also have "\<dots> \<le> 2 * 2 ^ 1000 + 1" using assms by simp
  also have "\<dots> < (2::rat) ^ 1024" by simp
  finally show ?thesis by (simp add: to_double_def Let_def)
qed

lemma binary64_of_int:
  assumes "\<bar>k\<bar> < 2 ^ 53"
  shows "binary64 (of_int k) = of_int k"
proof (cases "k = 0")
  case True
  then show ?thesis by (simp add: binary64_def)
next
  case False
  define b where "b = binade (of_int k)"
  have nz: "(of_int k :: rat) \<noteq> 0" using False by simp
  have bb: "2 powi b \<le> \<bar>of_int k :: rat\<bar>" "\<bar>of_int k :: rat\<bar> < 2 powi (b + 1)"
    using binade_bounds[OF nz] by (simp_all add: b_def)
  have "(1::rat) \<le> \<bar>of_int k\<bar>" using False by (simp flip: of_int_abs)
  then have "(2::rat) powi 0 < 2 powi (b + 1)" using bb(2) by simp
  then have "0 < b + 1" by (simp only: two_powi_less_iff)
  then have b0: "0 \<le> b" by simp
  have "\<bar>of_int k :: rat\<bar> < 2 powi 53" using assms by (simp flip: of_int_abs)
  then have "(2::rat) powi b < 2 powi 53" using bb(1) by simp
  then have "b < 53" by (simp only: two_powi_less_iff)
  then have b52: "b \<le> 52" by simp
  define j where "j = nat (52 - b)"
  have u: "(2::rat) powi (max b (- 1022) - 52) = 1 / 2 ^ j"
  proof -
    have "max b (- 1022) - 52 = - (52 - b)" using b0 by simp
    then have "(2::rat) powi (max b (- 1022) - 52) = 2 powi (- (52 - b))" by simp
    also have "\<dots> = 1 / 2 ^ nat (52 - b)" by (rule two_powi_neg) (use b52 in simp)
    finally show ?thesis by (simp add: j_def)
  qed
  have q: "\<bar>of_int k :: rat\<bar> / (1 / 2 ^ j) = of_int (\<bar>k\<bar> * 2 ^ j)" by simp
  have "binary64 (of_int k) = sgn (of_int k) * of_int (round_half_even (\<bar>of_int k\<bar> / (1 / 2 ^ j))) * (1 / 2 ^ j)"
    using nz unfolding binary64_def Let_def b_def[symmetric] u by simp
  also have "\<dots> = sgn (of_int k) * of_int (\<bar>k\<bar> * 2 ^ j) * (1 / 2 ^ j)"
    unfolding q round_half_even_of_int ..
  also have "\<dots> = sgn (of_int k) * \<bar>of_int k\<bar>" by simp
  also have "\<dots> = of_int k" by (simp add: mult_sgn_abs)
  finally show ?thesis .
qed

lemma two_powi_le_abs_nz:
  assumes "2 powi k \<le> \<bar>x :: rat\<bar>"
  shows "x \<noteq> 0"
proof
  assume "x = 0"
  with assms have "(2::rat) powi k \<le> 0" by simp
  moreover have "0 < (2::rat) powi k" by (rule two_powi_pos)
  ultimately show False by linarith
qed

lemma binade_ge:
  assumes "2 powi k \<le> \<bar>x\<bar>"
  shows "k \<le> binade x"
proof -
  have nz: "x \<noteq> 0" using assms by (rule two_powi_le_abs_nz)
  have "(2::rat) powi k < 2 powi (binade x + 1)" using assms binade_bounds[OF nz] by simp
  then have "k < binade x + 1" by (simp only: two_powi_less_iff)
  then show ?thesis by simp
qed

lemma binary64_rel_error:
  assumes "2 powi (- 1022) \<le> \<bar>x\<bar>"
  shows "\<bar>binary64 x - x\<bar> \<le> \<bar>x\<bar> / 2 ^ 53"
proof -
  have nz: "x \<noteq> 0" using assms by (rule two_powi_le_abs_nz)
  have b: "- 1022 \<le> binade x" using assms by (rule binade_ge)
  have "\<bar>binary64 x - x\<bar> \<le> 2 powi (binade x - 53)"
    using binary64_error[of x] b by (simp add: max_def)
  also have "\<dots> = 2 powi (binade x) / 2 ^ 53" by (simp add: power_int_diff)
  also have "\<dots> \<le> \<bar>x\<bar> / 2 ^ 53" using binade_bounds[OF nz] by (simp add: divide_right_mono)
  finally show ?thesis .
qed

lemma tiny_le: "(2::rat) powi (- 1022) \<le> 1 / 2 ^ 31"
proof -
  have "(2::rat) powi (- 1022) \<le> 2 powi (- 31)" by (rule power_int_increasing) simp_all
  also have "\<dots> = 1 / 2 ^ 31" using two_powi_neg[of 31] by simp
  finally show ?thesis .
qed

lemma pow10_bounds:
  assumes "- 8 \<le> e" and "e \<le> 7"
  shows "1 / 10 ^ 8 \<le> (10::rat) powi e" and "(10::rat) powi e \<le> 10 ^ 7"
proof -
  have "(10::rat) powi (- 8) \<le> 10 powi e" using assms by (intro power_int_increasing) simp_all
  moreover have "(10::rat) powi (- 8) = 1 / 10 ^ 8"
    by (simp add: power_int_minus inverse_eq_divide)
  ultimately show "1 / 10 ^ 8 \<le> (10::rat) powi e" by simp
  have "(10::rat) powi e \<le> 10 powi 7" using assms by (intro power_int_increasing) simp_all
  then show "(10::rat) powi e \<le> 10 ^ 7" by simp
qed



lemma Math_pow10_Num:
  assumes "- 8 \<le> e" and "e \<le> 7"
  shows "Math_pow10 e = Num (binary64 (10 powi e))"
proof -
  have "\<bar>(10::rat) powi e\<bar> \<le> 10 ^ 7" using pow10_bounds(2)[OF assms] by simp
  also have "\<dots> \<le> 2 ^ 1000" by simp
  finally show ?thesis unfolding Math_pow10_def by (rule to_double_Num)
qed

lemma binary64_pow10_abs:
  assumes "- 8 \<le> e" and "e \<le> 7"
  shows "\<bar>binary64 (10 powi e)\<bar> \<le> 2 * 10 ^ 7 + 1"
proof -
  have "\<bar>binary64 (10 powi e)\<bar> \<le> 2 * \<bar>(10::rat) powi e\<bar> + 1" by (rule binary64_abs_le)
  also have "\<dots> \<le> 2 * 10 ^ 7 + 1" using pow10_bounds(2)[OF assms] by simp
  finally show ?thesis .
qed

lemma js_times_pow10:
  assumes "- 8 \<le> e" and "e \<le> 7" and "\<bar>m\<bar> \<le> 2048"
  shows "js_times (Num m) (Math_pow10 e) = Num (binary64 (m * binary64 (10 powi e)))"
proof -
  define p where "p = binary64 (10 powi e)"
  have pb: "\<bar>p\<bar> \<le> 2 * 10 ^ 7 + 1"
    unfolding p_def using assms(1,2) by (rule binary64_pow10_abs)
  have "\<bar>m * p\<bar> = \<bar>m\<bar> * \<bar>p\<bar>" by (rule abs_mult)
  also have "\<dots> \<le> 2048 * (2 * 10 ^ 7 + 1)" using assms(3) pb by (intro mult_mono) simp_all
  also have "\<dots> \<le> 2 ^ 1000" by simp
  finally have d: "to_double (m * p) = Num (binary64 (m * p))" by (rule to_double_Num)
  have "js_times (Num m) (Math_pow10 e) = js_times (Num m) (Num p)"
    by (simp add: p_def Math_pow10_Num[OF assms(1,2)])
  also have "\<dots> = to_double (m * p)" by (simp add: js_times_def)
  also note d
  finally show ?thesis unfolding p_def .
qed



lemma double_product_error:
  assumes xpos: "0 < x" and m: "m = 0 \<or> 1 / 2 ^ 30 \<le> \<bar>m\<bar> * x"
    and p: "\<bar>p - x\<bar> \<le> x / 2 ^ 53"
  shows "\<bar>binary64 (m * p) - m * x\<bar> \<le> \<bar>m * x\<bar> / 2 ^ 51"
proof (cases "m = 0")
  case True
  then show ?thesis by (simp add: binary64_def)
next
  case False
  then have m1: "1 / 2 ^ 30 \<le> \<bar>m\<bar> * x" using m by simp
  define A where "A = \<bar>m\<bar> * x"
  have Apos: "0 \<le> A" using xpos by (simp add: A_def)
  have d1: "\<bar>m * p - m * x\<bar> \<le> A / 2 ^ 53"
  proof -
    have "\<bar>m * p - m * x\<bar> = \<bar>m\<bar> * \<bar>p - x\<bar>" by (simp flip: abs_mult add: right_diff_distrib)
    also have "\<dots> \<le> \<bar>m\<bar> * (x / 2 ^ 53)" using p by (intro mult_left_mono) simp_all
    finally show ?thesis by (simp add: A_def)
  qed
  have Ax: "\<bar>m * x\<bar> = A" using xpos by (simp add: A_def abs_mult)
  have "x / 2 ^ 53 \<le> x / 2" using xpos by (intro divide_left_mono) simp_all
  then have plow: "x / 2 \<le> \<bar>p\<bar>" using p by linarith
  have "1 / 2 ^ 31 \<le> A / 2" using m1 by (simp add: A_def)
  also have "\<dots> = \<bar>m\<bar> * (x / 2)" by (simp add: A_def)
  also have "\<dots> \<le> \<bar>m\<bar> * \<bar>p\<bar>" using plow by (intro mult_left_mono) simp_all
  finally have "1 / 2 ^ 31 \<le> \<bar>m * p\<bar>" by (simp add: abs_mult)
  then have "2 powi (- 1022) \<le> \<bar>m * p\<bar>" using tiny_le by (rule order_trans[rotated])
  then have d2: "\<bar>binary64 (m * p) - m * p\<bar> \<le> \<bar>m * p\<bar> / 2 ^ 53" by (rule binary64_rel_error)
  have "\<bar>m * p\<bar> \<le> A + A / 2 ^ 53" using d1 Ax by linarith
  then have "\<bar>m * p\<bar> / 2 ^ 53 \<le> (A + A / 2 ^ 53) / 2 ^ 53" by (simp add: divide_right_mono)
  with d1 d2 have "\<bar>binary64 (m * p) - m * x\<bar> \<le> A / 2 ^ 53 + (A + A / 2 ^ 53) / 2 ^ 53"
    by linarith
  also have "\<dots> \<le> A / 2 ^ 51" using Apos by simp
  finally show ?thesis by (simp add: Ax)
qed


lemma binary64_kPa: "binary64 (750062 / 100000) = 4222473679630961 / 562949953421312"
  using binary64_in_binade[of 2 "750062 / 100000"] by (simp add: round_eval)

lemma kPa_factor_Num: "kPa_factor = Num (4222473679630961 / 562949953421312)"
proof -
  have "to_double (750062 / 100000) = Num (binary64 (750062 / 100000))"
    by (rule to_double_Num) simp
  then show ?thesis unfolding kPa_factor_def binary64_kPa .
qed

lemma kPa_times:
  assumes "\<bar>x\<bar> \<le> 10 ^ 11"
  shows "js_times (Num x) kPa_factor = Num (binary64 (x * binary64 (750062 / 100000)))"
proof -
  have "\<bar>x * (4222473679630961 / 562949953421312)\<bar> = \<bar>x\<bar> * (4222473679630961 / 562949953421312)"
    by (simp add: abs_mult)
  also have "\<dots> \<le> 10 ^ 11 * (4222473679630961 / 562949953421312)"
    using assms by (intro mult_right_mono) simp_all
  also have "\<dots> \<le> 2 ^ 1000" by simp
  finally have "to_double (x * (4222473679630961 / 562949953421312)) =
                Num (binary64 (x * (4222473679630961 / 562949953421312)))"
    by (rule to_double_Num)
  then show ?thesis unfolding binary64_kPa by (simp add: js_times_def kPa_factor_Num)
qed

lemma kPa_times_error:
  assumes "x = 0 \<or> 1 / 10 ^ 9 \<le> \<bar>x\<bar>"
  shows "\<bar>binary64 (x * binary64 (750062 / 100000)) - x * (750062 / 100000)\<bar>
           \<le> \<bar>x * (750062 / 100000)\<bar> / 2 ^ 51"
proof (rule double_product_error)
  show "(0::rat) < 750062 / 100000" by simp
  show "x = 0 \<or> 1 / 2 ^ 30 \<le> \<bar>x\<bar> * (750062 / 100000)"
  proof (cases "x = 0")
    case True
    then show ?thesis by simp
  next
    case False
    then have "1 / 10 ^ 9 \<le> \<bar>x\<bar>" using assms by simp
    then have "1 / 10 ^ 9 * (750062 / 100000) \<le> \<bar>x\<bar> * (750062 / 100000)"
      by (intro mult_right_mono) simp_all
    moreover have "(1::rat) / 2 ^ 30 \<le> 1 / 10 ^ 9 * (750062 / 100000)" by simp
    ultimately show ?thesis by linarith
  qed
  show "\<bar>binary64 (750062 / 100000) - 750062 / 100000\<bar> \<le> 750062 / 100000 / 2 ^ 53"
    unfolding binary64_kPa by simp
qed

section \<open>Facts about the measurement parser\<close>

lemma and_exp_eq_exp_iff_bit: "((k::int) AND 2 ^ n = 2 ^ n) = bit k n"
  unfolding bit_eq_iff[of "k AND 2 ^ n" "2 ^ n"] by (auto simp add: bit_simps)

lemma flag_bit0: "(uint (f::8 word) AND 0x01 = 0x01) = bit f 0"
  using and_exp_eq_exp_iff_bit[of "uint f" 0] by (simp add: bit_uint_iff)

lemma flag_bit1: "(uint (f::8 word) AND 0x02 = 0x02) = bit f 1"
  using and_exp_eq_exp_iff_bit[of "uint f" 1] by (simp add: bit_uint_iff)

lemma flag_bit2: "(uint (f::8 word) AND 0x04 = 0x04) = bit f 2"
  using and_exp_eq_exp_iff_bit[of "uint f" 2] by (simp add: bit_uint_iff)

lemma flag_bit3: "(uint (f::8 word) AND 0x08 = 0x08) = bit f 3"
  using and_exp_eq_exp_iff_bit[of "uint f" 3] by (simp add: bit_uint_iff)

lemma flag_bit4: "(uint (f::8 word) AND 0x10 = 0x10) = bit f 4"
  using and_exp_eq_exp_iff_bit[of "uint f" 4] by (simp add: bit_uint_iff)

lemma getUint8_ok: "i < length dv \<Longrightarrow> getUint8 dv i = Inr (uint (dv ! i))"
  by (simp add: getUint8_def)

lemma getUint8_short: "length dv \<le> i \<Longrightarrow> getUint8 dv i = Inl RangeError"
  by (simp add: getUint8_def)

lemma getUint16_ok: "i + 2 \<le> length dv \<Longrightarrow> getUint16 dv i = Inr (uint (word16_at dv i))"
  by (simp add: getUint16_def)

lemma getUint16_short: "length dv < i + 2 \<Longrightarrow> getUint16 dv i = Inl RangeError"
  by (simp add: getUint16_def)

lemma parseSFLOAT_ok: "i + 2 \<le> length dv \<Longrightarrow> parseSFLOAT dv i = Inr (sfloat_at dv i)"
  by (simp add: parseSFLOAT_def getInt16_def sfloat_at_def)

lemma parseSFLOAT_short: "length dv < i + 2 \<Longrightarrow> parseSFLOAT dv i = Inl RangeError"
  by (simp add: parseSFLOAT_def getInt16_def)

lemma bind_result_Inr: "bind_result (Inr v) f = f v"
  by (simp add: bind_result_def)

lemma bind_result_Inl: "bind_result (Inl e) f = Inl e"
  by (simp add: bind_result_def)

lemma read_deviceTimestamp_ok:
  "i + 7 \<le> length dv \<Longrightarrow>
   read_deviceTimestamp dv (m, i) = Inr (m\<lparr>deviceTimestamp := Some (date_at dv i)\<rparr>, i + 7)"
  by (simp add: read_deviceTimestamp_def getUint16_ok getUint8_ok bind_result_Inr date_at_def)

lemma read_deviceTimestamp_short:
  "length dv < i + 7 \<Longrightarrow> read_deviceTimestamp dv (m, i) = Inl RangeError"
  by (simp add: read_deviceTimestamp_def getUint16_def getUint8_def bind_result_def)

lemma read_heartRate_ok:
  "i + 2 \<le> length dv \<Longrightarrow>
   read_heartRate dv (m, i) = Inr (m\<lparr>heartRate := Some (Math_round (sfloat_at dv i))\<rparr>, i + 2)"
  by (simp add: read_heartRate_def parseSFLOAT_ok bind_result_Inr)

lemma read_heartRate_short:
  "length dv < i + 2 \<Longrightarrow> read_heartRate dv (m, i) = Inl RangeError"
  by (simp add: read_heartRate_def parseSFLOAT_short bind_result_Inl)

lemma read_userId_ok:
  "i + 1 \<le> length dv \<Longrightarrow>
   read_userId dv (m, i) = Inr (m\<lparr>userId := Some (uint (dv ! i))\<rparr>, i + 1)"
  by (simp add: read_userId_def getUint8_ok bind_result_Inr)

lemma read_userId_short:
  "length dv < i + 1 \<Longrightarrow> read_userId dv (m, i) = Inl RangeError"
  by (simp add: read_userId_def getUint8_short bind_result_Inl)

lemma read_status_ok:
  "i + 2 \<le> length dv \<Longrightarrow>
   read_status dv (m, i) =
     Inr (m\<lparr>status := Some (parseMeasurementStatus (uint (word16_at dv i)))\<rparr>, i + 2)"
  by (simp add: read_status_def getUint16_ok bind_result_Inr)

lemma read_status_short:
  "length dv < i + 2 \<Longrightarrow> read_status dv (m, i) = Inl RangeError"
  by (simp add: read_status_def getUint16_short bind_result_Inl)


lemma parseSFLOAT_eq:
  "parseSFLOAT dv i = (if i + 2 \<le> length dv then Inr (sfloat_at dv i) else Inl RangeError)"
  by (simp add: parseSFLOAT_def getInt16_def sfloat_at_def)

lemma read_deviceTimestamp_eq:
  "read_deviceTimestamp dv (m, i) =
     (if i + 7 \<le> length dv then Inr (m\<lparr>deviceTimestamp := Some (date_at dv i)\<rparr>, i + 7)
      else Inl RangeError)"
  by (simp add: read_deviceTimestamp_ok read_deviceTimestamp_short)

lemma read_heartRate_eq:
  "read_heartRate dv (m, i) =
     (if i + 2 \<le> length dv then Inr (m\<lparr>heartRate := Some (Math_round (sfloat_at dv i))\<rparr>, i + 2)
      else Inl RangeError)"
  by (simp add: read_heartRate_ok read_heartRate_short)

lemma read_userId_eq:
  "read_userId dv (m, i) =
     (if i + 1 \<le> length dv then Inr (m\<lparr>userId := Some (uint (dv ! i))\<rparr>, i + 1)
      else Inl RangeError)"
  by (simp add: read_userId_ok read_userId_short)

lemma read_status_eq:
  "read_status dv (m, i) =
     (if i + 2 \<le> length dv
      then Inr (m\<lparr>status := Some (parseMeasurementStatus (uint (word16_at dv i)))\<rparr>, i + 2)
      else Inl RangeError)"
  by (simp add: read_status_ok read_status_short)

lemmas read_eqs = read_deviceTimestamp_eq read_heartRate_eq read_userId_eq read_status_eq

lemmas offset_defs = required_length_def status_offset_def userId_offset_def pulse_offset_def
  timestamp_offset_def

lemmas flag_bits = flag_bit0 flag_bit1 flag_bit2 flag_bit3 flag_bit4

lemma required_length_ge7: "7 \<le> required_length f"
  by (simp add: offset_defs)

lemma parseMeasurement_index_ok:
  assumes len: "required_length (dv ! 0) \<le> length dv"
  shows "parseMeasurement_index now dv =
     Inr (\<lparr> systolic = (if bit (dv ! 0) 0 then Math_round (js_times (sfloat_at dv 1) kPa_factor)
                        else sfloat_at dv 1),
            diastolic = (if bit (dv ! 0) 0 then Math_round (js_times (sfloat_at dv 3) kPa_factor)
                         else sfloat_at dv 3),
            meanArterialPressure =
              (if bit (dv ! 0) 0 then Math_round (js_times (sfloat_at dv 5) kPa_factor)
               else sfloat_at dv 5),
            originalUnit = (if bit (dv ! 0) 0 then ''kPa'' else ''mmHg''),
            timestamp = now,
            deviceTimestamp = (if bit (dv ! 0) 1 then Some (date_at dv (timestamp_offset (dv ! 0))) else None),
            heartRate = (if bit (dv ! 0) 2 then Some (Math_round (sfloat_at dv (pulse_offset (dv ! 0))))
                         else None),
            userId = (if bit (dv ! 0) 3 then Some (uint (dv ! userId_offset (dv ! 0))) else None),
            status = (if bit (dv ! 0) 4
                      then Some (parseMeasurementStatus (uint (word16_at dv (status_offset (dv ! 0)))))
                      else None) \<rparr>,
          required_length (dv ! 0))"
proof -
  have l7: "7 \<le> length dv" using len required_length_ge7[of "dv ! 0"] by simp
  have head: "parseMeasurement_index now dv =
      bind_result (if bit (dv ! 0) 1 then read_deviceTimestamp dv
           (\<lparr> systolic = (if bit (dv ! 0) 0 then Math_round (js_times (sfloat_at dv 1) kPa_factor)
                        else sfloat_at dv 1),
            diastolic = (if bit (dv ! 0) 0 then Math_round (js_times (sfloat_at dv 3) kPa_factor)
                         else sfloat_at dv 3),
            meanArterialPressure =
              (if bit (dv ! 0) 0 then Math_round (js_times (sfloat_at dv 5) kPa_factor)
               else sfloat_at dv 5),
            originalUnit = (if bit (dv ! 0) 0 then ''kPa'' else ''mmHg''),
            timestamp = now, deviceTimestamp = None, heartRate = None, userId = None, status = None \<rparr>, 7)
         else Inr (\<lparr> systolic = (if bit (dv ! 0) 0 then Math_round (js_times (sfloat_at dv 1) kPa_factor)
                        else sfloat_at dv 1),
            diastolic = (if bit (dv ! 0) 0 then Math_round (js_times (sfloat_at dv 3) kPa_factor)
                         else sfloat_at dv 3),
            meanArterialPressure =
              (if bit (dv ! 0) 0 then Math_round (js_times (sfloat_at dv 5) kPa_factor)
               else sfloat_at dv 5),
            originalUnit = (if bit (dv ! 0) 0 then ''kPa'' else ''mmHg''),
            timestamp = now, deviceTimestamp = None, heartRate = None, userId = None, status = None \<rparr>, 7)) (\<lambda>st.
      bind_result (if bit (dv ! 0) 2 then read_heartRate dv st else Inr st) (\<lambda>st.
      bind_result (if bit (dv ! 0) 3 then read_userId dv st else Inr st) (\<lambda>st.
      bind_result (if bit (dv ! 0) 4 then read_status dv st else Inr st) (\<lambda>st.
        Inr st))))"
  proof -
    have "dv \<noteq> []" using l7 by auto
    then have f: "getUint8 dv 0 = Inr (uint (dv ! 0))" by (simp add: getUint8_def)
    have p: "parseSFLOAT dv 1 = Inr (sfloat_at dv 1)" "parseSFLOAT dv 3 = Inr (sfloat_at dv 3)"
      "parseSFLOAT dv 5 = Inr (sfloat_at dv 5)"
      using l7 by (simp_all add: parseSFLOAT_eq)
    show ?thesis
      by (simp add: parseMeasurement_index_def Let_def f p bind_result_Inr flag_bits
          del: One_nat_def)
  qed
  show ?thesis
    unfolding head using len
    by (cases "bit (dv ! 0) 1"; cases "bit (dv ! 0) 2"; cases "bit (dv ! 0) 3"; cases "bit (dv ! 0) 4")
       (simp_all add: read_eqs offset_defs bind_result_Inr)
qed


lemma parseMeasurement_index_short:
  assumes "dv = [] \<or> length dv < required_length (dv ! 0)"
  shows "parseMeasurement_index now dv = Inl RangeError"
proof (cases "dv = []")
  case True
  then show ?thesis
    by (simp add: parseMeasurement_index_def getUint8_def bind_result_Inl)
next
  case False
  then have f: "getUint8 dv 0 = Inr (uint (dv ! 0))" by (simp add: getUint8_def)
  from False assms have short: "length dv < required_length (dv ! 0)" by simp
  show ?thesis
    using short
    by (cases "bit (dv ! 0) 1"; cases "bit (dv ! 0) 2"; cases "bit (dv ! 0) 3"; cases "bit (dv ! 0) 4")
       (simp_all add: parseMeasurement_index_def Let_def f parseSFLOAT_eq read_eqs bind_result_def
          flag_bits offset_defs del: One_nat_def)
qed

lemma parseMeasurement_index_Inr_iff:
  "(\<exists>r. parseMeasurement_index now dv = Inr r) = (dv \<noteq> [] \<and> required_length (dv ! 0) \<le> length dv)"
proof
  assume "\<exists>r. parseMeasurement_index now dv = Inr r"
  then show "dv \<noteq> [] \<and> required_length (dv ! 0) \<le> length dv"
    using parseMeasurement_index_short[of dv now] by force
next
  assume "dv \<noteq> [] \<and> required_length (dv ! 0) \<le> length dv"
  then show "\<exists>r. parseMeasurement_index now dv = Inr r"
    using parseMeasurement_index_ok[of dv now] by simp
qed







section \<open>Evaluation of the sample inputs\<close>

lemma binary64_tenth: "binary64 (10 powi (- 1)) = 3602879701896397 / 36028797018963968"
  using binary64_in_binade[of "- 4" "10 powi (- 1)"] by (simp add: round_eval)

lemma binary64_unit: "binary64 (10 powi 0) = 1"
  using binary64_of_int[of 1] by simp

lemma decoded_1200: "binary64 (1200 * binary64 (10 powi (- 1))) = 120"
  unfolding binary64_tenth
  using binary64_in_binade[of "6" "1200 * (3602879701896397 / 36028797018963968)"] by (simp add: round_eval)

lemma tenths_1200: "js_times (Num 1200) (Math_pow10 (- 1)) = Num (120)"
  using js_times_pow10[of "- 1" 1200] unfolding decoded_1200 by simp

lemma decoded_800: "binary64 (800 * binary64 (10 powi (- 1))) = 80"
  unfolding binary64_tenth
  using binary64_in_binade[of "6" "800 * (3602879701896397 / 36028797018963968)"] by (simp add: round_eval)

lemma tenths_800: "js_times (Num 800) (Math_pow10 (- 1)) = Num (80)"
  using js_times_pow10[of "- 1" 800] unfolding decoded_800 by simp

lemma decoded_930: "binary64 (930 * binary64 (10 powi (- 1))) = 93"
  unfolding binary64_tenth
  using binary64_in_binade[of "6" "930 * (3602879701896397 / 36028797018963968)"] by (simp add: round_eval)

lemma tenths_930: "js_times (Num 930) (Math_pow10 (- 1)) = Num (93)"
  using js_times_pow10[of "- 1" 930] unfolding decoded_930 by simp

lemma decoded_700: "binary64 (700 * binary64 (10 powi (- 1))) = 70"
  unfolding binary64_tenth
  using binary64_in_binade[of "6" "700 * (3602879701896397 / 36028797018963968)"] by (simp add: round_eval)

lemma tenths_700: "js_times (Num 700) (Math_pow10 (- 1)) = Num (70)"
  using js_times_pow10[of "- 1" 700] unfolding decoded_700 by simp

lemma decoded_160: "binary64 (160 * binary64 (10 powi (- 1))) = 16"
  unfolding binary64_tenth
  using binary64_in_binade[of "4" "160 * (3602879701896397 / 36028797018963968)"] by (simp add: round_eval)

lemma tenths_160: "js_times (Num 160) (Math_pow10 (- 1)) = Num (16)"
  using js_times_pow10[of "- 1" 160] unfolding decoded_160 by simp

lemma decoded_107: "binary64 (107 * binary64 (10 powi (- 1))) = 6023564501608039 / 562949953421312"
  unfolding binary64_tenth
  using binary64_in_binade[of "3" "107 * (3602879701896397 / 36028797018963968)"] by (simp add: round_eval)

lemma tenths_107: "js_times (Num 107) (Math_pow10 (- 1)) = Num (6023564501608039 / 562949953421312)"
  using js_times_pow10[of "- 1" 107] unfolding decoded_107 by simp

lemma decoded_124: "binary64 (124 * binary64 (10 powi (- 1))) = 6980579422424269 / 562949953421312"
  unfolding binary64_tenth
  using binary64_in_binade[of "3" "124 * (3602879701896397 / 36028797018963968)"] by (simp add: round_eval)

lemma tenths_124: "js_times (Num 124) (Math_pow10 (- 1)) = Num (6980579422424269 / 562949953421312)"
  using js_times_pow10[of "- 1" 124] unfolding decoded_124 by simp

lemma decoded_3: "binary64 (3 * binary64 (10 powi (- 1))) = 1351079888211149 / 4503599627370496"
  unfolding binary64_tenth
  using binary64_in_binade[of "- 2" "3 * (3602879701896397 / 36028797018963968)"] by (simp add: round_eval)

lemma tenths_3: "js_times (Num 3) (Math_pow10 (- 1)) = Num (1351079888211149 / 4503599627370496)"
  using js_times_pow10[of "- 1" 3] unfolding decoded_3 by simp

lemma units_70: "js_times (Num 70) (Math_pow10 0) = Num 70"
  using js_times_pow10[of 0 70] binary64_of_int[of 70] unfolding binary64_unit by simp

lemma units_neg: "js_times (Num (- 1)) (Math_pow10 0) = Num (- 1)"
  using js_times_pow10[of 0 "- 1"] binary64_of_int[of "- 1"] unfolding binary64_unit by simp

lemmas sample_products = tenths_1200 tenths_800 tenths_930 tenths_700 tenths_160 tenths_107 tenths_124 tenths_3 units_70 units_neg

lemma kPa_16: "Math_round (js_times (Num 16) kPa_factor) = Num 120"
proof -
  have b: "binary64 (16 * (4222473679630961 / 562949953421312)) = 4222473679630961 / 35184372088832"
    using binary64_in_binade[of 6 "16 * (4222473679630961 / 562949953421312)"] by (simp add: round_eval)
  have "\<bar>16 :: rat\<bar> \<le> 10 ^ 11" by simp
  from kPa_times[OF this]
  have "js_times (Num 16) kPa_factor = Num (binary64 (16 * (4222473679630961 / 562949953421312)))"
    unfolding binary64_kPa .
  then have "js_times (Num 16) kPa_factor = Num (4222473679630961 / 35184372088832)" unfolding b .
  then show ?thesis by (simp add: Math_round_def floor_rat_numeral)
qed

lemma kPa_107: "Math_round (js_times (Num (6023564501608039 / 562949953421312)) kPa_factor) = Num 80"
proof -
  have b: "binary64 ((6023564501608039 / 562949953421312) * (4222473679630961 / 562949953421312)) = 5647558546506411 / 70368744177664"
    using binary64_in_binade[of 6 "(6023564501608039 / 562949953421312) * (4222473679630961 / 562949953421312)"] by (simp add: round_eval)
  have "\<bar>6023564501608039 / 562949953421312 :: rat\<bar> \<le> 10 ^ 11" by simp
  from kPa_times[OF this]
  have "js_times (Num (6023564501608039 / 562949953421312)) kPa_factor = Num (binary64 ((6023564501608039 / 562949953421312) * (4222473679630961 / 562949953421312)))"
    unfolding binary64_kPa .
  then have "js_times (Num (6023564501608039 / 562949953421312)) kPa_factor = Num (5647558546506411 / 70368744177664)" unfolding b .
  then show ?thesis by (simp add: Math_round_def floor_rat_numeral)
qed

lemma kPa_124: "Math_round (js_times (Num (6980579422424269 / 562949953421312)) kPa_factor) = Num 93"
proof -
  have b: "binary64 ((6980579422424269 / 562949953421312) * (4222473679630961 / 562949953421312)) = 3272417101713995 / 35184372088832"
    using binary64_in_binade[of 6 "(6980579422424269 / 562949953421312) * (4222473679630961 / 562949953421312)"] by (simp add: round_eval)
  have "\<bar>6980579422424269 / 562949953421312 :: rat\<bar> \<le> 10 ^ 11" by simp
  from kPa_times[OF this]
  have "js_times (Num (6980579422424269 / 562949953421312)) kPa_factor = Num (binary64 ((6980579422424269 / 562949953421312) * (4222473679630961 / 562949953421312)))"
    unfolding binary64_kPa .
  then have "js_times (Num (6980579422424269 / 562949953421312)) kPa_factor = Num (3272417101713995 / 35184372088832)" unfolding b .
  then show ?thesis by (simp add: Math_round_def floor_rat_numeral)
qed

lemma kPa_70: "Math_round (js_times (Num 70) kPa_factor) = Num 525"
proof -
  have b: "binary64 (70 * (4222473679630961 / 562949953421312)) = 1154582646774091 / 2199023255552"
    using binary64_in_binade[of 9 "70 * (4222473679630961 / 562949953421312)"] by (simp add: round_eval)
  have "\<bar>70 :: rat\<bar> \<le> 10 ^ 11" by simp
  from kPa_times[OF this]
  have "js_times (Num 70) kPa_factor = Num (binary64 (70 * (4222473679630961 / 562949953421312)))"
    unfolding binary64_kPa .
  then have "js_times (Num 70) kPa_factor = Num (1154582646774091 / 2199023255552)" unfolding b .
  then show ?thesis by (simp add: Math_round_def floor_rat_numeral)
qed

lemmas sample_conversions = kPa_16 kPa_107 kPa_124 kPa_70

lemmas decode_eval = sfloat_at_def word16_at_def word_cat_eq decodeSFLOAT_def Let_def sample_products



lemma kPa_buffer_fields:
  "kPa_buffer ! 0 = 0x05"
  "required_length (kPa_buffer ! 0) \<le> length kPa_buffer"
  "required_length 0x05 = 9"
  "sfloat_at kPa_buffer 1 = Num 16"
  "sfloat_at kPa_buffer 3 = Num (6023564501608039 / 562949953421312)"
  "sfloat_at kPa_buffer 5 = Num (6980579422424269 / 562949953421312)"
  "sfloat_at kPa_buffer (pulse_offset 0x05) = Num 70"
  "sfloat_at kPa_buffer 7 = Num 70"
  by (simp_all add: kPa_buffer_def offset_defs decode_eval)

lemma Math_round_70: "Math_round (Num 70) = Num 70"
  by (simp add: Math_round_def floor_rat_numeral)

lemma kPa_buffer_parse:
  "parseMeasurement_index 0 kPa_buffer =
     Inr (\<lparr> systolic = Num 120, diastolic = Num 80, meanArterialPressure = Num 93,
            originalUnit = ''kPa'', timestamp = 0,
            deviceTimestamp = None,
            heartRate = Some (Num 70), userId = None,
            status = None \<rparr>, 9)"
  unfolding parseMeasurement_index_ok[OF kPa_buffer_fields(2)] kPa_buffer_fields
    sample_conversions Math_round_70
  by simp


lemma parseMeasurement_ok:
  assumes "parseMeasurement now dv = Inr m"
  shows "parseMeasurement_index now dv = Inr (m, required_length (dv ! 0))"
proof -
  obtain r where r: "parseMeasurement_index now dv = Inr r"
    using assms by (cases "parseMeasurement_index now dv") (simp_all add: parseMeasurement_def bind_result_def)
  then have "required_length (dv ! 0) \<le> length dv"
    using parseMeasurement_index_Inr_iff[of now dv] by auto
  then have "snd r = required_length (dv ! 0)"
    using r parseMeasurement_index_ok[of dv now] by (metis snd_conv sum.inject(2))
  moreover have "fst r = m" using assms r by (simp add: parseMeasurement_def bind_result_def)
  ultimately show ?thesis using r by (cases r) simp
qed

lemma parseMeasurement_short:
  assumes "dv = [] \<or> length dv < required_length (dv ! 0)"
  shows "parseMeasurement now dv = Inl RangeError"
  by (simp add: parseMeasurement_def parseMeasurement_index_short[OF assms] bind_result_Inl)

lemma Math_round_nearest:
  "\<exists>n::int. Math_round (Num y) = Num (of_int n) \<and> \<bar>of_int n - y\<bar> \<le> 1 / 2"
proof -
  let ?n = "\<lfloor>y + 1 / 2\<rfloor>"
  have "\<bar>of_int ?n - y\<bar> \<le> 1 / 2" by linarith
  then show ?thesis by (auto simp add: Math_round_def)
qed

lemma kPa_buffer_parseMeasurement:
  "parseMeasurement 0 kPa_buffer =
     Inr \<lparr> systolic = Num 120, diastolic = Num 80, meanArterialPressure = Num 93,
            originalUnit = ''kPa'', timestamp = 0,
            deviceTimestamp = None,
            heartRate = Some (Num 70), userId = None,
            status = None \<rparr>"
  by (simp add: parseMeasurement_def kPa_buffer_parse bind_result_Inr)

section \<open>Facts about the service\<close>

lemma trace_emit: "trace (emit e s) = trace s @ [e]"
  by (simp add: emit_def)

lemma emit_fields:
  "device (emit e s) = device s" "server (emit e s) = server s" "service (emit e s) = service s"
  "measurementCharacteristic (emit e s) = measurementCharacteristic s"
  "listeners (emit e s) = listeners s" "gatt_connected (emit e s) = gatt_connected s"
  "device_listeners (emit e s) = device_listeners s"
  by (simp_all add: emit_def)

lemma cleanup_fields:
  "device (cleanup s) = None" "server (cleanup s) = None" "service (cleanup s) = None"
  "measurementCharacteristic (cleanup s) = None"
  "listeners (cleanup s) = listeners s" "gatt_connected (cleanup s) = gatt_connected s"
  "device_listeners (cleanup s) = device_listeners s"
  "trace (cleanup s) = trace s"
  by (simp_all add: cleanup_def)

lemma same_connection_refl: "same_connection s s"
  by (simp add: same_connection_def)

lemma same_connection_trans:
  "same_connection s'' s' \<Longrightarrow> same_connection s' s \<Longrightarrow> same_connection s'' s"
  by (simp add: same_connection_def)

lemma same_connection_emit: "same_connection (emit e s) s"
  by (simp add: same_connection_def emit_fields)

lemma addEventListener_trace: "trace (addEventListener ev c s) = trace s"
  by (simp add: addEventListener_def Let_def split: option.splits)

lemma remove_listener_trace: "trace (remove_listener ev i s) = trace s"
  by (simp add: remove_listener_def split: option.splits)

lemma same_connection_add: "same_connection (addEventListener ev c s) s"
  by (simp add: same_connection_def addEventListener_def Let_def split: option.splits)

lemma same_connection_remove: "same_connection (remove_listener ev i s) s"
  by (simp add: same_connection_def remove_listener_def split: option.splits)

lemma apply_op_snd:
  "trace (snd (apply_op ev op st)) = trace (snd st) \<and> same_connection (snd (apply_op ev op st)) (snd st)"
  by (cases op; cases st)
     (simp_all add: addEventListener_trace remove_listener_trace same_connection_add
        same_connection_remove)

lemma fold_apply_op_snd:
  "trace (snd (fold (apply_op ev) ops st)) = trace (snd st) \<and>
   same_connection (snd (fold (apply_op ev) ops st)) (snd st)"
proof (induction ops arbitrary: st)
  case Nil
  then show ?case by (simp add: same_connection_refl)
next
  case (Cons op ops)
  show ?case
    using Cons.IH[of "apply_op ev op st"] apply_op_snd[of ev op st]
    by (auto intro: same_connection_trans)
qed

lemma call_listener_trace:
  "trace (snd (call_listener ev d c st)) = trace (snd st) @ callback_effects ev d c"
  using fold_apply_op_snd[of ev "cb_ops c" "(fst st, emit (Invoked c d) (snd st))"]
  by (simp add: call_listener_def Let_def callback_effects_def trace_emit split: option.splits)

lemma call_listener_same: "same_connection (snd (call_listener ev d c st)) (snd st)"
proof -
  have "same_connection (snd (fold (apply_op ev) (cb_ops c) (fst st, emit (Invoked c d) (snd st)))) (snd st)"
    using fold_apply_op_snd[of ev "cb_ops c" "(fst st, emit (Invoked c d) (snd st))"]
      same_connection_emit[of "Invoked c d" "snd st"]
    by (auto intro: same_connection_trans)
  then show ?thesis
    by (auto simp add: call_listener_def Let_def split: option.splits
        intro: same_connection_trans[OF same_connection_emit])
qed

lemma forEach_same: "same_connection (forEach ev d cbs s) s"
proof (induction ev d cbs s rule: forEach.induct)
  case (1 event data s)
  then show ?case by (simp add: same_connection_refl)
next
  case (2 event data callback rest s)
  show ?case
    using "2.IH" call_listener_same[of event data callback "(rest, s)"]
    by (auto intro: same_connection_trans)
qed

lemma forEach_trace:
  "\<exists>visited. trace (forEach ev d cbs s) = trace s @ concat (map (callback_effects ev d) visited)"
proof (induction ev d cbs s rule: forEach.induct)
  case (1 event data s)
  have "trace (forEach event data [] s) = trace s @ concat (map (callback_effects event data) [])"
    by simp
  then show ?case by blast
next
  case (2 event data callback rest s)
  then obtain visited where
    v: "trace (forEach event data (fst (call_listener event data callback (rest, s)))
                 (snd (call_listener event data callback (rest, s)))) =
        trace (snd (call_listener event data callback (rest, s))) @
          concat (map (callback_effects event data) visited)"
    by blast
  have "trace (forEach event data (callback # rest) s) =
        trace s @ concat (map (callback_effects event data) (callback # visited))"
    using v by (simp add: call_listener_trace)
  then show ?case by blast
qed




lemma notifyListeners_same: "same_connection (notifyListeners ev d s) s"
proof (cases "listeners s ev")
  case None
  then show ?thesis
    by (simp add: notifyListeners_def Let_def emit_fields same_connection_emit)
next
  case (Some cbs)
  have "same_connection (forEach ev d cbs (emit (Published ev d) s)) s"
    using forEach_same[of ev d cbs "emit (Published ev d) s"] same_connection_emit[of "Published ev d" s]
    by (rule same_connection_trans)
  then show ?thesis using Some by (simp add: notifyListeners_def Let_def emit_fields)
qed

lemma notifyListeners_trace:
  "\<exists>visited. trace (notifyListeners ev d s) =
     trace s @ Published ev d # concat (map (callback_effects ev d) visited)"
proof (cases "listeners s ev")
  case None
  then have "trace (notifyListeners ev d s) =
             trace s @ Published ev d # concat (map (callback_effects ev d) [])"
    by (simp add: notifyListeners_def Let_def emit_fields trace_emit)
  then show ?thesis by blast
next
  case (Some cbs)
  obtain visited where
    "trace (forEach ev d cbs (emit (Published ev d) s)) =
       trace (emit (Published ev d) s) @ concat (map (callback_effects ev d) visited)"
    using forEach_trace by blast
  then have "trace (notifyListeners ev d s) =
             trace s @ Published ev d # concat (map (callback_effects ev d) visited)"
    using Some by (simp add: notifyListeners_def Let_def emit_fields trace_emit)
  then show ?thesis by blast
qed


lemma invocations_append: "invocations (xs @ ys) = invocations xs @ invocations ys"
  by (induction xs rule: invocations.induct) simp_all

lemma publications_append: "publications (xs @ ys) = publications xs @ publications ys"
  by (induction xs rule: publications.induct) simp_all

lemma logged_errors_append: "logged_errors (xs @ ys) = logged_errors xs @ logged_errors ys"
  by (induction xs rule: logged_errors.induct) simp_all

lemma service_lookups_append: "service_lookups (xs @ ys) = service_lookups xs @ service_lookups ys"
  by (induction xs rule: service_lookups.induct) simp_all

lemma callback_effects_projections:
  "invocations (concat (map (callback_effects ev d) cs)) = map (\<lambda>c. (c, d)) cs"
  "logged_errors (concat (map (callback_effects ev d) cs)) = List.map_filter (\<lambda>c. cb_throws c d) cs"
  "publications (concat (map (callback_effects ev d) cs)) = []"
  "service_lookups (concat (map (callback_effects ev d) cs)) = []"
  by (induction cs)
     (simp_all add: callback_effects_def invocations_append logged_errors_append
        publications_append service_lookups_append List.map_filter_simps split: option.splits)

lemma notifyListeners_publications:
  "publications (trace (notifyListeners ev d s)) = publications (trace s) @ [(ev, d)]"
proof -
  obtain visited where
    "trace (notifyListeners ev d s) =
       trace s @ Published ev d # concat (map (callback_effects ev d) visited)"
    using notifyListeners_trace by blast
  then show ?thesis by (simp add: publications_append callback_effects_projections)
qed





lemma fold_addEventListener_trace: "trace (fold (addEventListener ev) cs s) = trace s"
  by (induction cs arbitrary: s) (simp_all add: addEventListener_trace)



lemma startNotifications_lookups:
  "startNotifications t s = (r, s') \<Longrightarrow> service_lookups (trace s') = service_lookups (trace s)"
  by (auto simp add: startNotifications_def Let_def trace_emit service_lookups_append
      split: option.splits if_splits)

lemma readFeatures_lookups:
  "service_lookups (trace (snd (readFeatures t s))) = service_lookups (trace s)"
  by (simp add: readFeatures_def Let_def trace_emit service_lookups_append
      split: option.splits sum.splits)

lemma connect_try_lookups:
  "service_lookups (trace (snd (connect_try t s))) =
     service_lookups (trace s) @
       (case requestDevice t of
          Inl err \<Rightarrow> []
        | Inr d \<Rightarrow>
            (case gatt_connect t d of
               Inl err \<Rightarrow> []
             | Inr srv \<Rightarrow>
                 (case getPrimaryService t srv BP_SERVICE_UUID of
                    Inr svc \<Rightarrow> [BP_SERVICE_UUID]
                  | Inl err \<Rightarrow> [BP_SERVICE_UUID, OMRON_CUSTOM_SERVICE_UUID])))"
  by (auto simp add: connect_try_def Let_def trace_emit service_lookups_append readFeatures_lookups
      split: sum.splits prod.splits dest!: startNotifications_lookups)

lemma connectToDevice_sample:
  "connectToDevice sample_transport constructor =
     (Inr \<lparr> info_name = ''Test BP Monitor'', info_id = ''test-device-id'', info_connected = True \<rparr>,
      connected_service)"
  by (simp add: connectToDevice_def connect_try_def isSupported_def sample_transport_def
      constructor_def connected_service_def Let_def emit_def startNotifications_def readFeatures_def
      sample_device_def sample_characteristic_def BP_SERVICE_UUID_def BP_MEASUREMENT_UUID_def
      BP_FEATURE_UUID_def OMRON_CUSTOM_SERVICE_UUID_def)

lemmas connect_eval = connectToDevice_def connect_try_def isSupported_def sample_transport_def
  Let_def emit_def cleanup_def startNotifications_def readFeatures_def
  sample_device_def sample_characteristic_def BP_SERVICE_UUID_def BP_MEASUREMENT_UUID_def
  BP_FEATURE_UUID_def OMRON_CUSTOM_SERVICE_UUID_def

lemma fail_supported:
  "isSupported fail_requestDevice" "isSupported fail_gatt_connect"
  "isSupported fail_getPrimaryService" "isSupported fail_getCharacteristic"
  "isSupported fail_startNotifications"
  by (simp_all add: isSupported_def sample_transport_def fail_requestDevice_def fail_gatt_connect_def
      fail_getPrimaryService_def fail_getCharacteristic_def fail_startNotifications_def)

text \<open>The result of the \<^verbatim>\<open>try\<close> block, stage by stage.\<close>

lemma startNotifications_result:
  "fst (startNotifications t s) =
     (case measurementCharacteristic s of
        None \<Rightarrow> Inl (Error ''Measurement characteristic not available'')
      | Some c \<Rightarrow>
          if prop_indicate c \<or> prop_notify c
          then (case char_startNotifications t c of Some err \<Rightarrow> Inl err | None \<Rightarrow> Inr ())
          else Inl (Error ''Device does not support notifications/indications''))"
  by (simp add: startNotifications_def Let_def split: option.splits)

lemma connect_try_result:
  "fst (connect_try t s) =
     (case requestDevice t of
        Inl err \<Rightarrow> Inl err
      | Inr d \<Rightarrow>
          (case gatt_connect t d of
             Inl err \<Rightarrow> Inl err
           | Inr srv \<Rightarrow>
               (case (case getPrimaryService t srv BP_SERVICE_UUID of
                        Inr svc \<Rightarrow> Inr svc
                      | Inl error \<Rightarrow> getPrimaryService t srv OMRON_CUSTOM_SERVICE_UUID) of
                  Inl err \<Rightarrow> Inl err
                | Inr svc \<Rightarrow>
                    (case getCharacteristic t svc BP_MEASUREMENT_UUID of
                       Inl err \<Rightarrow> Inl err
                     | Inr c \<Rightarrow>
                         if prop_indicate c \<or> prop_notify c
                         then (case char_startNotifications t c of
                                 Some err \<Rightarrow> Inl err
                               | None \<Rightarrow>
                                   Inr \<lparr> info_name =
                                           (case device_name d of
                                              None \<Rightarrow> ''Unknown Device''
                                            | Some n \<Rightarrow> if n = [] then ''Unknown Device'' else n),
                                         info_id = device_id d,
                                         info_connected = True \<rparr>)
                         else Inl (Error ''Device does not support notifications/indications'')))))"
  by (simp add: connect_try_def Let_def startNotifications_def emit_def
      split: sum.splits prod.splits option.splits)

lemma connectToDevice_result:
  assumes "isSupported t"
  shows "fst (connectToDevice t s) = fst (connect_try t s)"
  using assms by (simp add: connectToDevice_def split: prod.splits sum.splits)

lemma connectToDevice_failed_state:
  assumes "isSupported t" and "fst (connectToDevice t s) = Inl err"
  shows "device (snd (connectToDevice t s)) = None \<and> server (snd (connectToDevice t s)) = None \<and>
         service (snd (connectToDevice t s)) = None \<and>
         measurementCharacteristic (snd (connectToDevice t s)) = None"
  using assms
  by (auto simp add: connectToDevice_def cleanup_fields split: prod.splits sum.splits)

lemma disconnect_result:
  "fst (disconnect t s) =
     (case device s of
        None \<Rightarrow> Inr ()
      | Some d \<Rightarrow>
          if gatt_connected s then (case gatt_disconnect t d of Inl err \<Rightarrow> Inl err | Inr fires \<Rightarrow> Inr ())
          else Inr ())"
  by (simp add: disconnect_def Let_def emit_fields split: option.splits sum.splits)

lemma disconnect_Inr_fields:
  assumes "disconnect t s = (Inr u, s')"
  shows "device s' = None \<and> server s' = None \<and> service s' = None \<and>
         measurementCharacteristic s' = None"
  using assms
  by (auto simp add: disconnect_def Let_def cleanup_fields split: option.splits sum.splits if_splits)

lemma disconnect_idle:
  assumes "device s = None" and "measurementCharacteristic s = None"
  shows "disconnect t s = (Inr (), cleanup s)"
  using assms by (simp add: disconnect_def)

lemma cleanup_idem: "cleanup (cleanup s) = cleanup s"
  by (simp add: cleanup_def)

lemma cleanup_id:
  "device s = None \<Longrightarrow> server s = None \<Longrightarrow> service s = None \<Longrightarrow>
   measurementCharacteristic s = None \<Longrightarrow> cleanup s = s"
  by (simp add: cleanup_def)

lemma handleDisconnection_publications:
  "publications (trace (handleDisconnection s)) =
     publications (trace s) @ [(''disconnected'', DisconnectedData True)]"
  by (simp add: handleDisconnection_def notifyListeners_publications cleanup_fields)

lemma handleDisconnection_listeners:
  "device_listeners (handleDisconnection s) = device_listeners s"
  using notifyListeners_same[of "''disconnected''" "DisconnectedData True" "cleanup s"]
  by (simp add: handleDisconnection_def same_connection_def cleanup_fields)

lemma funpow_handleDisconnection_publications:
  "publications (trace ((handleDisconnection ^^ n) s)) =
     publications (trace s) @ replicate n (''disconnected'', DisconnectedData True)"
proof (induction n)
  case 0
  then show ?case by simp
next
  case (Suc n)
  then show ?case
    by (simp add: handleDisconnection_publications replicate_append_same)
qed

lemma dispatch_disconnected_publications:
  "publications (trace (dispatch_disconnected d s)) =
     publications (trace s) @ replicate (device_listeners s d) (''disconnected'', DisconnectedData True)"
  by (simp add: dispatch_disconnected_def funpow_handleDisconnection_publications)

lemma disconnect_publications:
  "\<exists>n. publications (trace (snd (disconnect t s))) =
     publications (trace s) @ replicate n (''disconnected'', DisconnectedData True)"
proof -
  have e: "\<exists>n. xs = xs @ replicate n (''disconnected'', DisconnectedData True)" for xs
    by (rule exI[of _ 0]) simp
  show ?thesis
    by (auto simp add: disconnect_def Let_def emit_fields trace_emit publications_append
        cleanup_fields dispatch_disconnected_publications e split: option.splits sum.splits)
qed

lemma disconnect_publications_quiet:
  assumes "\<forall>d. device s = Some d \<longrightarrow> gatt_disconnect t d \<noteq> Inr True"
  shows "publications (trace (snd (disconnect t s))) = publications (trace s)"
  using assms
  by (auto simp add: disconnect_def Let_def emit_fields trace_emit publications_append
      cleanup_fields split: option.splits sum.splits)

lemma startNotifications_publications:
  "startNotifications t s = (r, s') \<Longrightarrow> publications (trace s') = publications (trace s)"
  by (auto simp add: startNotifications_def Let_def trace_emit publications_append
      split: option.splits if_splits)

lemma readFeatures_publications:
  "publications (trace (snd (readFeatures t s))) = publications (trace s)"
  by (simp add: readFeatures_def Let_def trace_emit publications_append
      split: option.splits sum.splits)

lemma connect_try_publications:
  "publications (trace (snd (connect_try t s))) = publications (trace s)"
  by (auto simp add: connect_try_def Let_def trace_emit publications_append readFeatures_publications
      split: sum.splits prod.splits dest!: startNotifications_publications)

lemma connectToDevice_publications:
  "publications (trace (snd (connectToDevice t s))) = publications (trace s)"
proof (cases "isSupported t")
  case False
  then show ?thesis by (simp add: connectToDevice_def)
next
  case True
  have "publications (trace (snd (connectToDevice t s))) =
        publications (trace (snd (connect_try t s)))"
    using True
    by (simp add: connectToDevice_def cleanup_fields trace_emit publications_append
        split: prod.splits sum.splits)
  then show ?thesis by (simp add: connect_try_publications)
qed

lemma handleMeasurement_publications:
  "publications (trace (snd (handleMeasurement t dv s))) =
     publications (trace s) @
       (case parseMeasurement (clock t) dv of
          Inl err \<Rightarrow> []
        | Inr m \<Rightarrow> [(''measurement'', MeasurementData m)])"
  by (simp add: handleMeasurement_def notifyListeners_publications split: sum.splits)

lemma startNotifications_same:
  "startNotifications t s = (r, s') \<Longrightarrow> same_connection s' s"
  by (auto simp add: startNotifications_def Let_def same_connection_def emit_fields
      split: option.splits if_splits)

lemma readFeatures_same: "same_connection (snd (readFeatures t s)) s"
  by (simp add: readFeatures_def Let_def same_connection_def emit_fields
      split: option.splits sum.splits)

lemma connect_try_listener:
  assumes "fst (connect_try t s) = Inr info"
  shows "\<exists>d. device (snd (connect_try t s)) = Some d \<and> 0 < device_listeners (snd (connect_try t s)) d"
  using assms readFeatures_same
  by (auto simp add: connect_try_def Let_def emit_fields same_connection_def
      split: sum.splits prod.splits dest!: startNotifications_same)

lemma connectToDevice_listener:
  assumes "fst (connectToDevice t s) = Inr info"
  shows "\<exists>d. device (snd (connectToDevice t s)) = Some d \<and>
             0 < device_listeners (snd (connectToDevice t s)) d"
proof (cases "isSupported t")
  case False
  then show ?thesis using assms by (simp add: connectToDevice_def)
next
  case True
  then have "connectToDevice t s = connect_try t s"
    using assms by (auto simp add: connectToDevice_def split: prod.splits sum.splits)
  then show ?thesis using assms connect_try_listener[of t s info] by simp
qed

lemmas disconnect_eval = disconnect_def Let_def emit_def cleanup_def sample_transport_def
  connected_service_def sample_device_def sample_characteristic_def isConnected_def

lemma disconnect_sample:
  "fst (disconnect sample_transport connected_service) = Inr ()"
  "fst (disconnect fail_gatt_disconnect connected_service) = Inl (Error ''Disconnect failed'')"
  "device (snd (disconnect fail_gatt_disconnect connected_service)) = Some sample_device"
  "isConnected (snd (disconnect fail_gatt_disconnect connected_service))"
  by (simp_all add: disconnect_eval fail_gatt_disconnect_def)

lemma disconnect_sample_publications:
  "publications (trace (snd (disconnect sample_transport connected_service))) = []"
  "publications (trace (snd (disconnect dispatching_transport connected_service))) =
     [(''disconnected'', DisconnectedData True)]"
proof -
  have q: "\<forall>d. device connected_service = Some d \<longrightarrow> gatt_disconnect sample_transport d \<noteq> Inr True"
    by (simp add: sample_transport_def)
  show "publications (trace (snd (disconnect sample_transport connected_service))) = []"
    unfolding disconnect_publications_quiet[OF q] by (simp add: connected_service_def)
  show "publications (trace (snd (disconnect dispatching_transport connected_service))) =
     [(''disconnected'', DisconnectedData True)]"
    by (simp add: disconnect_def Let_def emit_fields trace_emit publications_append cleanup_fields
        dispatch_disconnected_publications dispatching_transport_def sample_transport_def
        connected_service_def)
qed

lemma gattserverdisconnected_publications:
  "publications (trace (gattserverdisconnected d s)) =
     publications (trace s) @ replicate (device_listeners s d) (''disconnected'', DisconnectedData True)"
  by (simp add: gattserverdisconnected_def dispatch_disconnected_publications)


section \<open>The claims\<close>






text \<open>
  C3. The classifier answers Crisis when systolic is at least 180 or diastolic at least 120;
  failing that, Stage 2 when systolic is at least 140 or diastolic at least 90; failing that,
  Stage 1 when systolic is at least 130 or diastolic at least 80; failing that, Elevated when
  systolic is at least 120 and diastolic below 80; and Normal otherwise. The comparisons are
  JavaScript's, so the statement covers NaN and the infinities too.
\<close>

theorem calculateHTNStatus_rules:
  "((calculateHTNStatus s d = ''Crisis'') = (js_ge s (Num 180) \<or> js_ge d (Num 120))) \<and>
   ((calculateHTNStatus s d = ''Stage 2'') =
     (\<not> (js_ge s (Num 180) \<or> js_ge d (Num 120)) \<and> (js_ge s (Num 140) \<or> js_ge d (Num 90)))) \<and>
   ((calculateHTNStatus s d = ''Stage 1'') =
     (\<not> (js_ge s (Num 180) \<or> js_ge d (Num 120)) \<and> \<not> (js_ge s (Num 140) \<or> js_ge d (Num 90)) \<and>
      (js_ge s (Num 130) \<or> js_ge d (Num 80)))) \<and>
   ((calculateHTNStatus s d = ''Elevated'') =
     (\<not> (js_ge s (Num 180) \<or> js_ge d (Num 120)) \<and> \<not> (js_ge s (Num 140) \<or> js_ge d (Num 90)) \<and>
      \<not> (js_ge s (Num 130) \<or> js_ge d (Num 80)) \<and> (js_ge s (Num 120) \<and> js_lt d (Num 80)))) \<and>
   ((calculateHTNStatus s d = ''Normal'') =
     (\<not> (js_ge s (Num 180) \<or> js_ge d (Num 120)) \<and> \<not> (js_ge s (Num 140) \<or> js_ge d (Num 90)) \<and>
      \<not> (js_ge s (Num 130) \<or> js_ge d (Num 80)) \<and> \<not> (js_ge s (Num 120) \<and> js_lt d (Num 80))))"
  by (simp add: calculateHTNStatus_def)

theorem calculateHTNStatus_rules_witness:
  "calculateHTNStatus (Num 110) (Num 70) = ''Normal'' \<and>
   calculateHTNStatus (Num 125) (Num 75) = ''Elevated'' \<and>
   calculateHTNStatus (Num 135) (Num 85) = ''Stage 1'' \<and>
   calculateHTNStatus (Num 150) (Num 95) = ''Stage 2'' \<and>
   calculateHTNStatus (Num 190) (Num 125) = ''Crisis'' \<and>
   calculateHTNStatus (Num 125) NaN = ''Normal''"
  using calculateHTNStatus_rules[of "Num 110" "Num 70"] calculateHTNStatus_rules[of "Num 125" "Num 75"]
    calculateHTNStatus_rules[of "Num 135" "Num 85"] calculateHTNStatus_rules[of "Num 150" "Num 95"]
    calculateHTNStatus_rules[of "Num 190" "Num 125"] calculateHTNStatus_rules[of "Num 125" NaN]
  by (simp add: js_ge_def js_lt_def)

text \<open>
  C4, amended. When flag bit 0 is set, systolic, diastolic and mean arterial pressure are the
  decoded SFLOAT values multiplied by 7.50062 and rounded to the nearest integer, and
  \<open>originalUnit\<close> is \<open>kPa\<close>; when it is clear they are the decoded values themselves and
  \<open>originalUnit\<close> is \<open>mmHg\<close>. The pulse rate, when flag bit 2 is set, is the decoded value
  rounded to the nearest integer whatever the unit: it is never multiplied by 7.50062. The
  multiplication is the one of doubles, by the double nearest to 7.50062: on every value
  that the decoder can return it is within a relative error of \<open>2^(-51)\<close> of the exact
  product.
\<close>

theorem parseMeasurement_unit_conversion:
  assumes "parseMeasurement now dataView = Inr m" and "flags = dataView ! 0"
  shows "(bit flags 0 \<longrightarrow>
            systolic m = Math_round (js_times (sfloat_at dataView 1) kPa_factor) \<and>
            diastolic m = Math_round (js_times (sfloat_at dataView 3) kPa_factor) \<and>
            meanArterialPressure m = Math_round (js_times (sfloat_at dataView 5) kPa_factor) \<and>
            originalUnit m = ''kPa'') \<and>
         (\<not> bit flags 0 \<longrightarrow>
            systolic m = sfloat_at dataView 1 \<and>
            diastolic m = sfloat_at dataView 3 \<and>
            meanArterialPressure m = sfloat_at dataView 5 \<and>
            originalUnit m = ''mmHg'') \<and>
         heartRate m =
           (if bit flags 2
            then Some (Math_round (sfloat_at dataView (7 + (if bit flags 1 then 7 else 0))))
            else None) \<and>
         (\<forall>x. js_times (Num x) kPa_factor = to_double (x * binary64 (750062 / 100000))) \<and>
         (\<forall>x. (x = 0 \<or> 1 / 10 ^ 9 \<le> \<bar>x\<bar>) \<and> \<bar>x\<bar> \<le> 10 ^ 11 \<longrightarrow>
              (\<exists>y. js_times (Num x) kPa_factor = Num y \<and>
                   \<bar>y - x * (750062 / 100000)\<bar> \<le> \<bar>x * (750062 / 100000)\<bar> / 2 ^ 51)) \<and>
         (\<forall>y. \<exists>n::int. Math_round (Num y) = Num (of_int n) \<and> \<bar>of_int n - y\<bar> \<le> 1 / 2)"
proof -
  have idx: "parseMeasurement_index now dataView = Inr (m, required_length (dataView ! 0))"
    using assms(1) by (rule parseMeasurement_ok)
  then have len: "required_length (dataView ! 0) \<le> length dataView"
    using parseMeasurement_index_Inr_iff[of now dataView] by auto
  have m: "m = fst (projr (parseMeasurement_index now dataView))" using idx by simp
  have "systolic m = (if bit flags 0 then Math_round (js_times (sfloat_at dataView 1) kPa_factor)
                      else sfloat_at dataView 1)"
    "diastolic m = (if bit flags 0 then Math_round (js_times (sfloat_at dataView 3) kPa_factor)
                      else sfloat_at dataView 3)"
    "meanArterialPressure m = (if bit flags 0 then Math_round (js_times (sfloat_at dataView 5) kPa_factor)
                      else sfloat_at dataView 5)"
    "originalUnit m = (if bit flags 0 then ''kPa'' else ''mmHg'')"
    "heartRate m = (if bit flags 2 then Some (Math_round (sfloat_at dataView (pulse_offset flags))) else None)"
    unfolding m parseMeasurement_index_ok[OF len] assms(2) by simp_all
  moreover have "\<forall>x. js_times (Num x) kPa_factor = to_double (x * binary64 (750062 / 100000))"
    unfolding binary64_kPa by (simp add: js_times_def kPa_factor_Num)
  moreover have "\<forall>x. (x = 0 \<or> 1 / 10 ^ 9 \<le> \<bar>x\<bar>) \<and> \<bar>x\<bar> \<le> 10 ^ 11 \<longrightarrow>
              (\<exists>y. js_times (Num x) kPa_factor = Num y \<and>
                   \<bar>y - x * (750062 / 100000)\<bar> \<le> \<bar>x * (750062 / 100000)\<bar> / 2 ^ 51)"
    using kPa_times kPa_times_error by blast
  moreover have "\<forall>y. \<exists>n::int. Math_round (Num y) = Num (of_int n) \<and> \<bar>of_int n - y\<bar> \<le> 1 / 2"
    using Math_round_nearest by blast
  ultimately show ?thesis by (simp add: offset_defs)
qed

theorem parseMeasurement_unit_conversion_witness:
  "systolic (projr (parseMeasurement 0 kPa_buffer)) = Num 120 \<and>
   Math_round (js_times (sfloat_at kPa_buffer 1) kPa_factor) = Num 120 \<and>
   originalUnit (projr (parseMeasurement 0 kPa_buffer)) = ''kPa'' \<and>
   heartRate (projr (parseMeasurement 0 kPa_buffer)) = Some (Math_round (sfloat_at kPa_buffer 7))"
proof -
  have f: "(0x05 :: 8 word) = kPa_buffer ! 0" by (simp add: kPa_buffer_def)
  have b: "bit (0x05 :: 8 word) 0" "\<not> bit (0x05 :: 8 word) 1" "bit (0x05 :: 8 word) 2" by simp_all
  show ?thesis
    using parseMeasurement_unit_conversion[OF kPa_buffer_parseMeasurement f] b
    by (simp add: kPa_buffer_parseMeasurement)
qed

text \<open>
  C4 as stated fails: with bits 0 and 2 set and a pulse of 70, the heart rate is 70, not the
  525 that the conversion would give.
\<close>

theorem kPa_pulse_not_converted:
  "bit (kPa_buffer ! 0) 0 \<and> bit (kPa_buffer ! 0) 2 \<and>
   heartRate (projr (parseMeasurement 0 kPa_buffer)) = Some (Num 70) \<and>
   heartRate (projr (parseMeasurement 0 kPa_buffer)) \<noteq>
     Some (Math_round (js_times (sfloat_at kPa_buffer 7) kPa_factor))"
  unfolding kPa_buffer_parseMeasurement kPa_buffer_fields kPa_70
  by simp

text \<open>
  C5, amended. On an empty buffer, or one shorter than its flags byte demands,
  \<^verbatim>\<open>_parseMeasurement\<close> throws \<^verbatim>\<open>RangeError\<close> instead of returning a measurement;
  \<^verbatim>\<open>_handleMeasurement\<close> does not catch it: the error leaves the handler, and the service
  object is unchanged (nothing is published).
\<close>

theorem short_buffer_throws:
  assumes "dataView = [] \<or> length dataView < required_length (dataView ! 0)"
  shows "parseMeasurement now dataView = Inl RangeError \<and>
         handleMeasurement t dataView s = (Inl RangeError, s)"
  by (simp add: handleMeasurement_def parseMeasurement_short[OF assms])

theorem short_buffer_throws_witness:
  "parseMeasurement 0 (take 8 kPa_buffer) = Inl RangeError \<and>
   handleMeasurement sample_transport (take 8 kPa_buffer) constructor = (Inl RangeError, constructor)"
proof -
  have "take 8 kPa_buffer = [] \<or> length (take 8 kPa_buffer) < required_length (take 8 kPa_buffer ! 0)"
    by (simp add: kPa_buffer_def offset_defs)
  then show ?thesis by (rule short_buffer_throws)
qed

text \<open>
  C5 as stated fails: on a buffer one byte short, the error does leave the notification
  handler, and nothing is published.
\<close>

theorem short_buffer_propagates:
  "fst (handleMeasurement sample_transport (take 8 kPa_buffer) constructor) = Inl RangeError \<and>
   trace (snd (handleMeasurement sample_transport (take 8 kPa_buffer) constructor)) = []"
proof -
  have "take 8 kPa_buffer = [] \<or> length (take 8 kPa_buffer) < required_length (take 8 kPa_buffer ! 0)"
    by (simp add: kPa_buffer_def offset_defs)
  then show ?thesis
    by (simp add: handleMeasurement_def parseMeasurement_short constructor_def)
qed





text \<open>
  C7. \<^verbatim>\<open>connectToDevice\<close> looks the standard Blood Pressure service up once, as soon as the
  GATT connection is open; it looks the vendor service \<open>0xFE4A\<close> up exactly when that lookup
  has thrown, and once only. There is no other call of \<^verbatim>\<open>getPrimaryService\<close>, whether the
  connection then succeeds or fails.
\<close>

theorem connectToDevice_one_fallback:
  "service_lookups (trace (snd (connectToDevice t s))) =
     service_lookups (trace s) @
       (if \<not> isSupported t then []
        else case requestDevice t of
               Inl err \<Rightarrow> []
             | Inr d \<Rightarrow>
                 (case gatt_connect t d of
                    Inl err \<Rightarrow> []
                  | Inr srv \<Rightarrow>
                      (case getPrimaryService t srv BP_SERVICE_UUID of
                         Inr svc \<Rightarrow> [BP_SERVICE_UUID]
                       | Inl err \<Rightarrow> [BP_SERVICE_UUID, OMRON_CUSTOM_SERVICE_UUID])))"
proof (cases "isSupported t")
  case False
  then show ?thesis by (simp add: connectToDevice_def)
next
  case True
  have "service_lookups (trace (snd (connectToDevice t s))) =
        service_lookups (trace (snd (connect_try t s)))"
    using True
    by (simp add: connectToDevice_def cleanup_fields trace_emit service_lookups_append
        split: prod.splits sum.splits)
  then show ?thesis using True by (simp add: connect_try_lookups)
qed

theorem connectToDevice_one_fallback_witness:
  "service_lookups (trace (snd (connectToDevice sample_transport constructor))) =
     [BP_SERVICE_UUID, OMRON_CUSTOM_SERVICE_UUID] \<and>
   service_lookups (trace (snd (connectToDevice
      (sample_transport\<lparr>getPrimaryService := (\<lambda>srv u. Inr 2)\<rparr>) constructor))) =
     [BP_SERVICE_UUID] \<and>
   service_lookups (trace (snd (connectToDevice
      (sample_transport\<lparr>getPrimaryService := (\<lambda>srv u. Inl (Error ''Service not found''))\<rparr>)
      constructor))) =
     [BP_SERVICE_UUID, OMRON_CUSTOM_SERVICE_UUID]"
  using connectToDevice_one_fallback[of sample_transport constructor]
    connectToDevice_one_fallback[of "sample_transport\<lparr>getPrimaryService := (\<lambda>srv u. Inr 2)\<rparr>" constructor]
    connectToDevice_one_fallback[of
      "sample_transport\<lparr>getPrimaryService := (\<lambda>srv u. Inl (Error ''Service not found''))\<rparr>" constructor]
  by (simp add: isSupported_def sample_transport_def constructor_def)


text \<open>
  C10. \<^verbatim>\<open>connectToDevice\<close> fails as soon as a stage of its \<^verbatim>\<open>try\<close> block throws (the
  device request, the GATT connection, the lookup of the vendor service after the one of
  the standard service, the characteristic, the notifications), with the error of that
  stage; otherwise it returns the device information. Whenever it fails, the error reaches
  the caller with \<open>device\<close>, \<open>server\<close>, \<open>service\<close> and \<open>measurementCharacteristic\<close>
  all reset to \<^verbatim>\<open>null\<close>, so that \<^verbatim>\<open>isConnected()\<close> is false.
\<close>

theorem connectToDevice_failure_resets:
  assumes "isSupported t"
  shows "fst (connectToDevice t s) =
     (case requestDevice t of
        Inl err \<Rightarrow> Inl err
      | Inr d \<Rightarrow>
          (case gatt_connect t d of
             Inl err \<Rightarrow> Inl err
           | Inr srv \<Rightarrow>
               (case (case getPrimaryService t srv BP_SERVICE_UUID of
                        Inr svc \<Rightarrow> Inr svc
                      | Inl error \<Rightarrow> getPrimaryService t srv OMRON_CUSTOM_SERVICE_UUID) of
                  Inl err \<Rightarrow> Inl err
                | Inr svc \<Rightarrow>
                    (case getCharacteristic t svc BP_MEASUREMENT_UUID of
                       Inl err \<Rightarrow> Inl err
                     | Inr c \<Rightarrow>
                         if prop_indicate c \<or> prop_notify c
                         then (case char_startNotifications t c of
                                 Some err \<Rightarrow> Inl err
                               | None \<Rightarrow>
                                   Inr \<lparr> info_name =
                                           (case device_name d of
                                              None \<Rightarrow> ''Unknown Device''
                                            | Some n \<Rightarrow> if n = [] then ''Unknown Device'' else n),
                                         info_id = device_id d,
                                         info_connected = True \<rparr>)
                         else Inl (Error ''Device does not support notifications/indications''))))) \<and>
    (\<forall>err. fst (connectToDevice t s) = Inl err \<longrightarrow>
       device (snd (connectToDevice t s)) = None \<and> server (snd (connectToDevice t s)) = None \<and>
       service (snd (connectToDevice t s)) = None \<and>
       measurementCharacteristic (snd (connectToDevice t s)) = None \<and>
       \<not> isConnected (snd (connectToDevice t s)))"
proof -
  have "\<forall>err. fst (connectToDevice t s) = Inl err \<longrightarrow>
       device (snd (connectToDevice t s)) = None \<and> server (snd (connectToDevice t s)) = None \<and>
       service (snd (connectToDevice t s)) = None \<and>
       measurementCharacteristic (snd (connectToDevice t s)) = None \<and>
       \<not> isConnected (snd (connectToDevice t s))"
    using connectToDevice_failed_state[OF assms, of s] by (simp add: isConnected_def)
  then show ?thesis
    unfolding connectToDevice_result[OF assms] connect_try_result by simp
qed

theorem connectToDevice_failure_resets_witness:
  "isConnected connected_service \<and>
   fst (connectToDevice fail_requestDevice connected_service) = Inl (Error ''User cancelled'') \<and>
   \<not> isConnected (snd (connectToDevice fail_requestDevice connected_service)) \<and>
   fst (connectToDevice fail_gatt_connect connected_service) = Inl (Error ''GATT error'') \<and>
   \<not> isConnected (snd (connectToDevice fail_gatt_connect connected_service)) \<and>
   fst (connectToDevice fail_getPrimaryService connected_service) = Inl (Error ''Service not found'') \<and>
   \<not> isConnected (snd (connectToDevice fail_getPrimaryService connected_service)) \<and>
   fst (connectToDevice fail_getCharacteristic connected_service) =
     Inl (Error ''Characteristic not found'') \<and>
   \<not> isConnected (snd (connectToDevice fail_getCharacteristic connected_service)) \<and>
   fst (connectToDevice fail_startNotifications connected_service) = Inl (Error ''Not permitted'') \<and>
   \<not> isConnected (snd (connectToDevice fail_startNotifications connected_service)) \<and>
   device (snd (connectToDevice fail_startNotifications connected_service)) = None \<and>
   server (snd (connectToDevice fail_startNotifications connected_service)) = None \<and>
   service (snd (connectToDevice fail_startNotifications connected_service)) = None \<and>
   measurementCharacteristic (snd (connectToDevice fail_startNotifications connected_service)) = None"
proof -
  have c: "isConnected connected_service"
    by (simp add: isConnected_def connected_service_def)
  have r: "requestDevice fail_requestDevice = Inl (Error ''User cancelled'')"
    "requestDevice fail_gatt_connect = Inr sample_device"
    "gatt_connect fail_gatt_connect sample_device = Inl (Error ''GATT error'')"
    "requestDevice fail_getPrimaryService = Inr sample_device"
    "gatt_connect fail_getPrimaryService sample_device = Inr 1"
    "getPrimaryService fail_getPrimaryService srv u = Inl (Error ''Service not found'')"
    "requestDevice fail_getCharacteristic = Inr sample_device"
    "gatt_connect fail_getCharacteristic sample_device = Inr 1"
    "getPrimaryService fail_getCharacteristic srv BP_SERVICE_UUID = Inl (Error ''Service not found'')"
    "getPrimaryService fail_getCharacteristic srv OMRON_CUSTOM_SERVICE_UUID = Inr 2"
    "getCharacteristic fail_getCharacteristic svc u = Inl (Error ''Characteristic not found'')"
    "requestDevice fail_startNotifications = Inr sample_device"
    "gatt_connect fail_startNotifications sample_device = Inr 1"
    "getPrimaryService fail_startNotifications srv BP_SERVICE_UUID = Inl (Error ''Service not found'')"
    "getPrimaryService fail_startNotifications srv OMRON_CUSTOM_SERVICE_UUID = Inr 2"
    "getCharacteristic fail_startNotifications svc BP_MEASUREMENT_UUID = Inr sample_characteristic"
    "char_startNotifications fail_startNotifications c = Some (Error ''Not permitted'')"
    "prop_indicate sample_characteristic"
    for srv svc u c
    by (simp_all add: fail_requestDevice_def fail_gatt_connect_def fail_getPrimaryService_def
        fail_getCharacteristic_def fail_startNotifications_def sample_transport_def
        sample_characteristic_def BP_SERVICE_UUID_def OMRON_CUSTOM_SERVICE_UUID_def)
  show ?thesis
    using connectToDevice_failure_resets[OF fail_supported(1), of connected_service]
      connectToDevice_failure_resets[OF fail_supported(2), of connected_service]
      connectToDevice_failure_resets[OF fail_supported(3), of connected_service]
      connectToDevice_failure_resets[OF fail_supported(4), of connected_service]
      connectToDevice_failure_resets[OF fail_supported(5), of connected_service]
    by (simp add: c r)
qed


text \<open>
  C9, amended. \<^verbatim>\<open>disconnect()\<close> returns normally unless \<^verbatim>\<open>gatt.disconnect()\<close> itself
  throws; a failure of \<^verbatim>\<open>stopNotifications()\<close> is swallowed. Whenever it returns normally,
  \<open>device\<close>, \<open>server\<close>, \<open>service\<close> and \<open>measurementCharacteristic\<close> are all
  \<^verbatim>\<open>null\<close>, \<^verbatim>\<open>isConnected()\<close> is false, and a second \<^verbatim>\<open>disconnect()\<close> changes nothing.
  On a service that is already disconnected it does not throw and leaves the object as it
  is.
\<close>

theorem disconnect_clears_state:
  "((fst (disconnect t s) = Inr ()) =
      (\<forall>d err. device s = Some d \<and> gatt_connected s \<longrightarrow> gatt_disconnect t d \<noteq> Inl err)) \<and>
   (fst (disconnect t s) = Inr () \<longrightarrow>
      device (snd (disconnect t s)) = None \<and> server (snd (disconnect t s)) = None \<and>
      service (snd (disconnect t s)) = None \<and>
      measurementCharacteristic (snd (disconnect t s)) = None \<and>
      \<not> isConnected (snd (disconnect t s)) \<and>
      disconnect t (snd (disconnect t s)) = (Inr (), snd (disconnect t s))) \<and>
   (device s = None \<and> server s = None \<and> service s = None \<and> measurementCharacteristic s = None
      \<longrightarrow> disconnect t s = (Inr (), s))"
proof -
  have a: "(fst (disconnect t s) = Inr ()) =
     (\<forall>d err. device s = Some d \<and> gatt_connected s \<longrightarrow> gatt_disconnect t d \<noteq> Inl err)"
    by (auto simp add: disconnect_result split: option.splits sum.splits)
  have c: "device s = None \<and> server s = None \<and> service s = None \<and> measurementCharacteristic s = None
     \<longrightarrow> disconnect t s = (Inr (), s)"
    by (simp add: disconnect_idle cleanup_id)
  have b: "fst (disconnect t s) = Inr () \<longrightarrow>
     device (snd (disconnect t s)) = None \<and> server (snd (disconnect t s)) = None \<and>
     service (snd (disconnect t s)) = None \<and>
     measurementCharacteristic (snd (disconnect t s)) = None \<and>
     \<not> isConnected (snd (disconnect t s)) \<and>
     disconnect t (snd (disconnect t s)) = (Inr (), snd (disconnect t s))"
  proof
    assume ok: "fst (disconnect t s) = Inr ()"
    then have "disconnect t s = (Inr (), snd (disconnect t s))" by (simp add: prod_eq_iff)
    from disconnect_Inr_fields[OF this]
    have f: "device (snd (disconnect t s)) = None \<and> server (snd (disconnect t s)) = None \<and>
      service (snd (disconnect t s)) = None \<and> measurementCharacteristic (snd (disconnect t s)) = None" .
    then show "device (snd (disconnect t s)) = None \<and> server (snd (disconnect t s)) = None \<and>
     service (snd (disconnect t s)) = None \<and>
     measurementCharacteristic (snd (disconnect t s)) = None \<and>
     \<not> isConnected (snd (disconnect t s)) \<and>
     disconnect t (snd (disconnect t s)) = (Inr (), snd (disconnect t s))"
      by (simp add: isConnected_def disconnect_idle cleanup_id)
  qed
  from a b c show ?thesis by blast
qed

theorem disconnect_clears_state_witness:
  "fst (disconnect sample_transport connected_service) = Inr () \<and>
   device (snd (disconnect sample_transport connected_service)) = None \<and>
   \<not> isConnected (snd (disconnect sample_transport connected_service)) \<and>
   disconnect sample_transport (snd (disconnect sample_transport connected_service)) =
     (Inr (), snd (disconnect sample_transport connected_service)) \<and>
   disconnect sample_transport constructor = (Inr (), constructor)"
proof -
  have idle: "device constructor = None \<and> server constructor = None \<and> service constructor = None \<and>
              measurementCharacteristic constructor = None"
    by (simp add: constructor_def)
  show ?thesis
    using disconnect_clears_state[of sample_transport connected_service]
      disconnect_clears_state[of sample_transport constructor] disconnect_sample(1) idle
    by simp
qed

text \<open>
  C9 as stated fails: when \<^verbatim>\<open>gatt.disconnect()\<close> throws, the error leaves
  \<^verbatim>\<open>disconnect()\<close> before \<^verbatim>\<open>_cleanup()\<close> is reached; the device handle is kept and
  \<^verbatim>\<open>isConnected()\<close> is still true.
\<close>

theorem disconnect_failure_keeps_state:
  "fst (disconnect fail_gatt_disconnect connected_service) = Inl (Error ''Disconnect failed'') \<and>
   device (snd (disconnect fail_gatt_disconnect connected_service)) = Some sample_device \<and>
   isConnected (snd (disconnect fail_gatt_disconnect connected_service))"
  by (simp add: disconnect_sample)

text \<open>
  C6, amended. An unsolicited disconnection of the transport publishes \<open>disconnected\<close>
  tagged \<open>unexpected: true\<close>: \<^verbatim>\<open>_handleDisconnection\<close> publishes exactly that event, and the
  dispatch of \<^verbatim>\<open>gattserverdisconnected\<close> on a device that \<^verbatim>\<open>connectToDevice\<close> has connected
  runs it (once when the device was connected once). The service publishes no event tagged
  \<open>unexpected: false\<close>: \<^verbatim>\<open>disconnect()\<close> publishes nothing of its own (nothing at all when
  the transport does not dispatch the disconnection that the service asked for),
  \<^verbatim>\<open>connectToDevice\<close> publishes nothing and a notification publishes \<open>measurement\<close> events
  only.
\<close>

theorem disconnected_events_tagged_unexpected:
  "publications (trace (handleDisconnection s)) =
     publications (trace s) @ [(''disconnected'', DisconnectedData True)] \<and>
   (device_listeners s d = 1 \<longrightarrow>
      publications (trace (gattserverdisconnected d s)) =
        publications (trace s) @ [(''disconnected'', DisconnectedData True)]) \<and>
   (0 < device_listeners s d \<longrightarrow>
      (\<exists>n>0. publications (trace (gattserverdisconnected d s)) =
         publications (trace s) @ replicate n (''disconnected'', DisconnectedData True))) \<and>
   (fst (connectToDevice t s) = Inr info \<longrightarrow>
      (\<exists>d'. device (snd (connectToDevice t s)) = Some d' \<and>
            0 < device_listeners (snd (connectToDevice t s)) d')) \<and>
   ((\<forall>d'. device s = Some d' \<longrightarrow> gatt_disconnect t d' \<noteq> Inr True) \<longrightarrow>
      publications (trace (snd (disconnect t s))) = publications (trace s)) \<and>
   (\<forall>event. (event, DisconnectedData False) \<in> set (publications (trace (snd (disconnect t s)))) \<longrightarrow>
      (event, DisconnectedData False) \<in> set (publications (trace s))) \<and>
   publications (trace (snd (connectToDevice t s))) = publications (trace s) \<and>
   publications (trace (snd (handleMeasurement t dataView s))) =
     publications (trace s) @
       (case parseMeasurement (clock t) dataView of
          Inl err \<Rightarrow> []
        | Inr m \<Rightarrow> [(''measurement'', MeasurementData m)])"
proof -
  have once: "device_listeners s d = 1 \<longrightarrow>
      publications (trace (gattserverdisconnected d s)) =
        publications (trace s) @ [(''disconnected'', DisconnectedData True)]"
    by (simp add: gattserverdisconnected_publications)
  have some: "0 < device_listeners s d \<longrightarrow>
      (\<exists>n>0. publications (trace (gattserverdisconnected d s)) =
         publications (trace s) @ replicate n (''disconnected'', DisconnectedData True))"
    using gattserverdisconnected_publications[of d s] by blast
  have listener: "fst (connectToDevice t s) = Inr info \<longrightarrow>
      (\<exists>d'. device (snd (connectToDevice t s)) = Some d' \<and>
            0 < device_listeners (snd (connectToDevice t s)) d')"
    using connectToDevice_listener[of t s info] by blast
  have quiet: "(\<forall>d'. device s = Some d' \<longrightarrow> gatt_disconnect t d' \<noteq> Inr True) \<longrightarrow>
      publications (trace (snd (disconnect t s))) = publications (trace s)"
    using disconnect_publications_quiet[of s t] by blast
  obtain n where
    "publications (trace (snd (disconnect t s))) =
       publications (trace s) @ replicate n (''disconnected'', DisconnectedData True)"
    using disconnect_publications by blast
  then have never: "\<forall>event. (event, DisconnectedData False) \<in> set (publications (trace (snd (disconnect t s)))) \<longrightarrow>
      (event, DisconnectedData False) \<in> set (publications (trace s))"
    by auto
  from once some listener quiet never show ?thesis
    by (simp add: handleDisconnection_publications connectToDevice_publications
        handleMeasurement_publications)
qed

theorem disconnected_events_tagged_unexpected_witness:
  "publications (trace (gattserverdisconnected sample_device connected_service)) =
     [(''disconnected'', DisconnectedData True)] \<and>
   publications (trace (snd (disconnect sample_transport connected_service))) = [] \<and>
   fst (connectToDevice sample_transport constructor) =
     Inr \<lparr> info_name = ''Test BP Monitor'', info_id = ''test-device-id'', info_connected = True \<rparr> \<and>
   0 < device_listeners (snd (connectToDevice sample_transport constructor)) sample_device"
proof -
  have p: "publications (trace connected_service) = []" "publications (trace constructor) = []"
    "device_listeners connected_service sample_device = 1"
    "device connected_service = Some sample_device"
    "gatt_disconnect sample_transport sample_device = Inr False"
    by (simp_all add: connected_service_def constructor_def sample_transport_def)
  show ?thesis
    using disconnected_events_tagged_unexpected[of connected_service sample_device sample_transport]
      disconnected_events_tagged_unexpected[of constructor sample_device sample_transport
        "\<lparr> info_name = ''Test BP Monitor'', info_id = ''test-device-id'', info_connected = True \<rparr>"]
    by (simp add: p connectToDevice_sample)
qed

text \<open>
  C6 as stated fails: a programmatic \<^verbatim>\<open>disconnect()\<close> of a connected service publishes no
  event tagged \<open>unexpected: false\<close>, whether or not the transport dispatches the
  disconnection.
\<close>

theorem disconnect_publishes_no_expected_event:
  "fst (disconnect sample_transport connected_service) = Inr () \<and>
   (''disconnected'', DisconnectedData False) \<notin>
     set (publications (trace (snd (disconnect sample_transport connected_service)))) \<and>
   (''disconnected'', DisconnectedData False) \<notin>
     set (publications (trace (snd (disconnect dispatching_transport connected_service))))"
  by (simp add: disconnect_sample disconnect_sample_publications)

end
